theory Spec2Isabelle
  imports Complex_Main "HOL-Library.Sublist"
begin

section \<open>Python values and strings\<close>

text \<open>
  The values \<open>json.loads\<close> and \<open>response.json()\<close> produce. A \<open>dict\<close> is an
  association list read with \<^term>\<open>map_of\<close>; a \<open>str\<close> is a \<^typ>\<open>string\<close>; a number is
  a rational (only its truth value and its being different from every \<open>str\<close> are ever
  used by the program; a non-finite float behaves there as any non-zero number does).
\<close>

datatype json =
    JNull
  | JBool bool
  | JNum rat
  | JStr string
  | JArr "json list"
  | JObj "(string \<times> json) list"

text \<open>The exceptions the program's handlers catch.\<close>

datatype exn =
    TypeError | AttributeError | KeyError | IndexError
  | Timeout | RequestError | DecodeError

definition bind_exn :: "exn + 'a \<Rightarrow> ('a \<Rightarrow> exn + 'b) \<Rightarrow> exn + 'b" where
  "bind_exn m f = (case m of Inl e \<Rightarrow> Inl e | Inr x \<Rightarrow> f x)"

text \<open>\<open>not v\<close> is \<open>\<not> truthy v\<close>.\<close>

fun truthy :: "json \<Rightarrow> bool" where
  "truthy JNull = False"
| "truthy (JBool b) = b"
| "truthy (JNum n) = (n \<noteq> 0)"
| "truthy (JStr s) = (s \<noteq> [])"
| "truthy (JArr xs) = (xs \<noteq> [])"
| "truthy (JObj kvs) = (kvs \<noteq> [])"

text \<open>\<open>sub in s\<close> on two \<open>str\<close>: \<open>sub\<close> occurs in \<open>s\<close>.\<close>

fun contains :: "string \<Rightarrow> string \<Rightarrow> bool" where
  "contains sub [] = (sub = [])"
| "contains sub (c # cs) = (prefix sub (c # cs) \<or> contains sub cs)"

text \<open>
  \<open>s.split(sep)\<close>: the pieces between the occurrences of \<open>sep\<close>, found from the left
  and not overlapping. Python raises \<open>ValueError\<close> on an empty separator; the program
  only splits on the literals \<open>'#'\<close>, \<open>'?'\<close>, \<open>'/'\<close> and \<open>'/status/'\<close>.
\<close>

fun split_on :: "string \<Rightarrow> string \<Rightarrow> string list" where
  "split_on sep [] = [[]]"
| "split_on sep (c # cs) =
     (if sep \<noteq> [] \<and> prefix sep (c # cs)
      then [] # split_on sep (drop (length sep) (c # cs))
      else (case split_on sep cs of
              [] \<Rightarrow> [[c]]
            | p # ps \<Rightarrow> (c # p) # ps))"

text \<open>\<open>xs[i]\<close> on a list, raising \<open>IndexError\<close> out of range.\<close>

definition py_index :: "'a list \<Rightarrow> nat \<Rightarrow> exn + 'a" where
  "py_index xs i = (if i < length xs then Inr (xs ! i) else Inl IndexError)"

text \<open>\<open>k in v\<close> for a \<open>str\<close> \<open>k\<close>: key of a dict, element of a list, substring of a
  \<open>str\<close>; a \<open>TypeError\<close> on \<open>None\<close>, a number or a boolean.\<close>

fun py_in :: "string \<Rightarrow> json \<Rightarrow> exn + bool" where
  "py_in k (JObj kvs) = Inr (k \<in> set (map fst kvs))"
| "py_in k (JArr xs) = Inr (JStr k \<in> set xs)"
| "py_in k (JStr s) = Inr (contains k s)"
| "py_in k JNull = Inl TypeError"
| "py_in k (JBool b) = Inl TypeError"
| "py_in k (JNum n) = Inl TypeError"

text \<open>\<open>v[k]\<close> for a \<open>str\<close> \<open>k\<close>: \<open>KeyError\<close> on a dict without the key,
  \<open>TypeError\<close> on everything that is not a dict.\<close>

fun py_getitem :: "json \<Rightarrow> string \<Rightarrow> exn + json" where
  "py_getitem (JObj kvs) k = (case map_of kvs k of None \<Rightarrow> Inl KeyError | Some v \<Rightarrow> Inr v)"
| "py_getitem JNull k = Inl TypeError"
| "py_getitem (JBool b) k = Inl TypeError"
| "py_getitem (JNum n) k = Inl TypeError"
| "py_getitem (JStr s) k = Inl TypeError"
| "py_getitem (JArr xs) k = Inl TypeError"

text \<open>\<open>v.get(k, d)\<close>: only a dict has the method.\<close>

fun py_get :: "json \<Rightarrow> string \<Rightarrow> json \<Rightarrow> exn + json" where
  "py_get (JObj kvs) k d = Inr (case map_of kvs k of None \<Rightarrow> d | Some v \<Rightarrow> v)"
| "py_get JNull k d = Inl AttributeError"
| "py_get (JBool b) k d = Inl AttributeError"
| "py_get (JNum n) k d = Inl AttributeError"
| "py_get (JStr s) k d = Inl AttributeError"
| "py_get (JArr xs) k d = Inl AttributeError"

text \<open>\<open>v.split(sep)\<close>: only a \<open>str\<close> has the method.\<close>

fun py_split :: "json \<Rightarrow> string \<Rightarrow> exn + string list" where
  "py_split (JStr s) sep = Inr (split_on sep s)"
| "py_split JNull sep = Inl AttributeError"
| "py_split (JBool b) sep = Inl AttributeError"
| "py_split (JNum n) sep = Inl AttributeError"
| "py_split (JArr xs) sep = Inl AttributeError"
| "py_split (JObj kvs) sep = Inl AttributeError"

text \<open>
  \<open>str.lower\<close> and \<open>str.isalnum\<close> consult Python's Unicode character database,
  which is no part of the program: the two builtins are parameters of the model, and
  every statement about the program holds for whatever they compute. A \<^typ>\<open>char\<close>
  stands for one character of a \<open>str\<close>; \<open>lower\<close> works on the whole \<open>str\<close> (it may
  change its length), \<open>isalnum\<close> is asked of one character at a time.
\<close>

record builtins =
  str_lower :: "string \<Rightarrow> string"
  str_isalnum :: "char \<Rightarrow> bool"

section \<open>Link parser\<close>

text \<open>
  The loop of \<open>extract_account_name\<close> over \<open>enumerate(parts)\<close>: the first part equal
  to a known host that has a part after it (\<open>i + 1 < len(parts)\<close>) decides; the part
  after it is lower-cased and keeps its alphanumeric characters and underscores.
\<close>

definition clean_account :: "builtins \<Rightarrow> string \<Rightarrow> string" where
  "clean_account py part =
     filter (\<lambda>c. str_isalnum py c \<or> c = CHR ''_'') (str_lower py part)"

fun scan_parts :: "builtins \<Rightarrow> string list \<Rightarrow> string option" where
  "scan_parts py [] = None"
| "scan_parts py [part] = None"
| "scan_parts py (part # nxt # rest) =
     (if part \<in> set [''x.com'', ''twitter.com'']
      then Some (clean_account py nxt)
      else scan_parts py (nxt # rest))"

text \<open>The body of \<open>extract_account_name\<close> inside its \<open>try\<close>.\<close>

definition extract_account_name_body :: "builtins \<Rightarrow> json \<Rightarrow> exn + string option" where
  "extract_account_name_body py twitter_link =
     bind_exn (py_in ''#'' twitter_link) (\<lambda>has_hash.
     bind_exn (if has_hash
               then bind_exn (py_split twitter_link ''#'') (\<lambda>ps.
                    bind_exn (py_index ps 0) (\<lambda>p. Inr (JStr p)))
               else Inr twitter_link) (\<lambda>link1.
     bind_exn (py_in ''/status/'' link1) (\<lambda>has_status.
     bind_exn (if has_status
               then bind_exn (py_split link1 ''/status/'') (\<lambda>ps.
                    bind_exn (py_index ps 0) (\<lambda>p. Inr (JStr p)))
               else Inr link1) (\<lambda>link2.
     bind_exn (py_split link2 ''/'') (\<lambda>parts.
     Inr (scan_parts py parts))))))"

text \<open>\<open>except Exception\<close>: log, return \<open>None\<close>.\<close>

definition extract_account_name :: "builtins \<Rightarrow> json \<Rightarrow> string option" where
  "extract_account_name py twitter_link =
     (case extract_account_name_body py twitter_link of Inl e \<Rightarrow> None | Inr r \<Rightarrow> r)"

definition extract_tweet_id_body :: "json \<Rightarrow> exn + string option" where
  "extract_tweet_id_body twitter_link =
     bind_exn (py_in ''/status/'' twitter_link) (\<lambda>has_status.
     if has_status
     then bind_exn (py_split twitter_link ''/status/'') (\<lambda>ps.
          bind_exn (py_index ps 1) (\<lambda>p1.
          bind_exn (py_index (split_on ''#'' p1) 0) (\<lambda>p2.
          bind_exn (py_index (split_on ''?'' p2) 0) (\<lambda>p3.
          Inr (Some p3)))))
     else Inr None)"

definition extract_tweet_id :: "json \<Rightarrow> string option" where
  "extract_tweet_id twitter_link =
     (case extract_tweet_id_body twitter_link of Inl e \<Rightarrow> None | Inr r \<Rightarrow> r)"

section \<open>Metadata resolver\<close>

record links =
  twitter :: json
  website :: json
  telegram :: json

definition unavailable :: json where
  "unavailable = JStr ''Non disponible''"

definition default_links :: links where
  "default_links = \<lparr>twitter = unavailable, website = unavailable, telegram = unavailable\<rparr>"

text \<open>
  What \<open>requests.get(uri, timeout=REQUEST_TIMEOUT)\<close> can do: raise
  \<open>requests.Timeout\<close>, raise anything else, or return a response with a status code
  whose \<open>.json()\<close> gives a value or raises. The network is a parameter of the model.
\<close>

datatype body = JsonBody json | NotJson

datatype fetch_result = TimedOut | Failed | Response int body

text \<open>
  The first \<open>links.update\<close>, under
  \<open>if 'properties' in metadata and 'links' in metadata['properties']\<close>. The dict
  literal is built before \<open>update\<close> is called, so an exception leaves \<open>links\<close> as
  it was.
\<close>

definition nested_links :: "json \<Rightarrow> links \<Rightarrow> exn + links" where
  "nested_links metadata links =
     bind_exn (py_in ''properties'' metadata) (\<lambda>has_properties.
     bind_exn (if has_properties
               then bind_exn (py_getitem metadata ''properties'') (\<lambda>properties.
                    py_in ''links'' properties)
               else Inr False) (\<lambda>has_links.
     if has_links
     then bind_exn (py_getitem metadata ''properties'') (\<lambda>properties.
          bind_exn (py_getitem properties ''links'') (\<lambda>links_data.
          bind_exn (py_get links_data ''twitter'' (twitter links)) (\<lambda>tw.
          bind_exn (py_get links_data ''website'' (website links)) (\<lambda>we.
          bind_exn (py_get links_data ''telegram'' (telegram links)) (\<lambda>te.
          Inr (links\<lparr>twitter := tw, website := we, telegram := te\<rparr>))))))
     else Inr links))"

text \<open>The second \<open>links.update\<close>: \<open>metadata.get(k, metadata.get(k_link, links[k]))\<close>.\<close>

definition direct_links :: "json \<Rightarrow> links \<Rightarrow> exn + links" where
  "direct_links metadata links =
     bind_exn (py_get metadata ''twitter_link'' (twitter links)) (\<lambda>tw0.
     bind_exn (py_get metadata ''twitter'' tw0) (\<lambda>tw.
     bind_exn (py_get metadata ''website_link'' (website links)) (\<lambda>we0.
     bind_exn (py_get metadata ''website'' we0) (\<lambda>we.
     bind_exn (py_get metadata ''telegram_link'' (telegram links)) (\<lambda>te0.
     bind_exn (py_get metadata ''telegram'' te0) (\<lambda>te.
     Inr (links\<lparr>twitter := tw, website := we, telegram := te\<rparr>)))))))"

text \<open>
  \<open>get_token_links\<close> with what it leaves behind: the \<open>links\<close> dict as it is at the
  final \<open>return links\<close>, the URIs \<open>requests.get\<close> was called with, and the exception
  one of the two \<open>except\<close> clauses caught, if any.
\<close>

definition get_token_links_try ::
  "(json \<Rightarrow> fetch_result) \<Rightarrow> json \<Rightarrow> links \<times> json list \<times> exn option" where
  "get_token_links_try http_get uri =
     (let links = default_links in
      if \<not> truthy uri then (links, [], None)
      else (case http_get uri of
              TimedOut \<Rightarrow> (links, [uri], Some Timeout)
            | Failed \<Rightarrow> (links, [uri], Some RequestError)
            | Response status_code content \<Rightarrow>
                if status_code = 200
                then (case content of
                        NotJson \<Rightarrow> (links, [uri], Some DecodeError)
                      | JsonBody metadata \<Rightarrow>
                          (case nested_links metadata links of
                             Inl e \<Rightarrow> (links, [uri], Some e)
                           | Inr links1 \<Rightarrow>
                               (case direct_links metadata links1 of
                                  Inl e \<Rightarrow> (links1, [uri], Some e)
                                | Inr links2 \<Rightarrow> (links2, [uri], None))))
                else (links, [uri], None)))"

definition get_token_links :: "(json \<Rightarrow> fetch_result) \<Rightarrow> json \<Rightarrow> links" where
  "get_token_links http_get uri = fst (get_token_links_try http_get uri)"

section \<open>Ledger, allow-list and the filter gate\<close>

text \<open>
  The two module-level lists, the ledger file, and the visible actions in the order
  they happen. \<open>SendTweet\<close> is the hand-over of \<open>send_tweet(twitter_link,
  account_name)\<close> to the bot's event loop by \<open>asyncio.run_coroutine_threadsafe\<close>.
\<close>

datatype effect =
    HttpGet json
  | FileAppend string
  | LedgerAppend string
  | SendTweet json string

record bot =
  tweet_blacklist :: "string list"
  allowed_accounts :: "string list"
  blacklist_file :: string
  trace :: "effect list"

text \<open>
  Opening the ledger file for append and writing one line either succeeds or raises;
  when it raises, \<open>WriteError part\<close> carries the text that reached the file before
  (nothing when \<open>open\<close> itself fails).
\<close>

datatype write_outcome = Written | WriteError string

record env =
  net :: "json \<Rightarrow> fetch_result"
  disk :: write_outcome

text \<open>Where \<open>process_token\<close> returns: the branch its log line names.\<close>

datatype reason = NoSocialLink | UnparsableLink | AlreadyProcessed | AccountNotAllowed

datatype decision = Accept string string | Reject reason | Errored exn

definition save_to_blacklist :: "write_outcome \<Rightarrow> string \<Rightarrow> string \<Rightarrow> bot \<Rightarrow> bot" where
  "save_to_blacklist outcome tweet_id account_name s =
     (let line = tweet_id @ ''|'' @ account_name in
      case outcome of
        Written \<Rightarrow>
          s\<lparr>blacklist_file := blacklist_file s @ line @ [CHR 0x0A],
            tweet_blacklist := tweet_blacklist s @ [line],
            trace := trace s @ [FileAppend (line @ [CHR 0x0A]), LedgerAppend line]\<rparr>
      | WriteError part \<Rightarrow>
          s\<lparr>blacklist_file := blacklist_file s @ part\<rparr>)"

text \<open>\<open>token_data.get('uri', token_data.get('metadataUri', ''))\<close>.\<close>

definition token_uri :: "json \<Rightarrow> exn + json" where
  "token_uri token_data =
     bind_exn (py_get token_data ''metadataUri'' (JStr [])) (\<lambda>d.
     py_get token_data ''uri'' d)"

definition process_token ::
  "builtins \<Rightarrow> env \<Rightarrow> bot \<Rightarrow> json \<Rightarrow> decision \<times> bot" where
  "process_token py e s token_data =
     (case token_uri token_data of
        Inl x \<Rightarrow> (Errored x, s)
      | Inr uri \<Rightarrow>
          (let (links, requests, caught) = get_token_links_try (net e) uri;
               s1 = s\<lparr>trace := trace s @ map HttpGet requests\<rparr>;
               twitter_link = twitter links
           in if twitter_link = JStr ''Non disponible'' then (Reject NoSocialLink, s1)
              else (case (extract_account_name py twitter_link, extract_tweet_id twitter_link) of
                      (Some account_name, Some tweet_id) \<Rightarrow>
                        if account_name = [] \<or> tweet_id = [] then (Reject UnparsableLink, s1)
                        else (let tweet_key = tweet_id @ ''|'' @ account_name in
                              if tweet_key \<in> set (tweet_blacklist s1)
                              then (Reject AlreadyProcessed, s1)
                              else if account_name \<notin> set (allowed_accounts s1)
                              then (Reject AccountNotAllowed, s1)
                              else (let s2 = save_to_blacklist (disk e) tweet_id account_name s1
                                    in (Accept account_name tweet_id,
                                        s2\<lparr>trace := trace s2 @ [SendTweet twitter_link account_name]\<rparr>)))
                    | _ \<Rightarrow> (Reject UnparsableLink, s1))))"

section \<open>Event classifier\<close>

text \<open>\<open>k in data and data[k] == v\<close>, with Python's short-circuit \<open>and\<close>.\<close>

definition tag_is :: "json \<Rightarrow> string \<Rightarrow> string \<Rightarrow> exn + bool" where
  "tag_is data k v =
     bind_exn (py_in k data) (\<lambda>present.
     if present then bind_exn (py_getitem data k) (\<lambda>x. Inr (x = JStr v)) else Inr False)"

text \<open>
  The \<open>if\<close>/\<open>elif\<close> chain of \<open>on_websocket_message\<close>: the argument it calls
  \<open>process_token\<close> with, \<open>None\<close> when no branch is taken, or the exception raised on
  the way.
\<close>

definition classify :: "json \<Rightarrow> exn + json option" where
  "classify data =
     bind_exn (tag_is data ''method'' ''newToken'') (\<lambda>is_method.
     if is_method then bind_exn (py_getitem data ''params'') (\<lambda>params. Inr (Some params))
     else bind_exn (tag_is data ''type'' ''newToken'') (\<lambda>is_type.
     if is_type then Inr (Some data)
     else bind_exn (tag_is data ''event'' ''token_created'') (\<lambda>is_event.
     if is_event then bind_exn (py_getitem data ''data'') (\<lambda>payload. Inr (Some payload))
     else bind_exn (py_in ''mint'' data) (\<lambda>has_mint.
          bind_exn (if has_mint then tag_is data ''txType'' ''create'' else Inr False) (\<lambda>is_create.
     if is_create then Inr (Some data) else Inr None)))))"

text \<open>
  One frame. The message is what \<open>json.loads\<close> made of it, \<open>None\<close> when it raised;
  every exception ends in the handler, which logs and returns.
\<close>

definition on_websocket_message ::
  "builtins \<Rightarrow> env \<Rightarrow> bot \<Rightarrow> json option \<Rightarrow> bot" where
  "on_websocket_message py e s message =
     (case message of
        None \<Rightarrow> s
      | Some data \<Rightarrow>
          (case classify data of
             Inl x \<Rightarrow> s
           | Inr None \<Rightarrow> s
           | Inr (Some token_data) \<Rightarrow> snd (process_token py e s token_data)))"

text \<open>The receive loop: frames one after the other, each with the world it meets.\<close>

fun run :: "builtins \<Rightarrow> (env \<times> json option) list \<Rightarrow> bot \<Rightarrow> bot" where
  "run py [] s = s"
| "run py ((e, message) # rest) s = run py rest (on_websocket_message py e s message)"

section \<open>Notions of the specification\<close>

text \<open>The URL shape of the link-parsing property, for an account and a message id.\<close>

definition status_url :: "string \<Rightarrow> string \<Rightarrow> string" where
  "status_url acct ident = ''https://x.com/'' @ acct @ ''/status/'' @ ident @ ''?x=1#y''"

text \<open>A field of a JSON object; nothing else has fields.\<close>

fun field :: "json \<Rightarrow> string \<Rightarrow> json option" where
  "field (JObj kvs) k = map_of kvs k"
| "field JNull k = None"
| "field (JBool b) k = None"
| "field (JNum n) k = None"
| "field (JStr s) k = None"
| "field (JArr xs) k = None"

text \<open>
  The two sources of a link field \<open>k\<close> in the order the specification consults them:
  \<open>properties.links.k\<close>, then the top-level \<open>k\<close> or \<open>k_link\<close>. A source that is
  present overrides what was there before; an absent one leaves it.
\<close>

definition nested_source :: "json \<Rightarrow> string \<Rightarrow> json option" where
  "nested_source metadata k =
     (case field metadata ''properties'' of
        None \<Rightarrow> None
      | Some properties \<Rightarrow>
          (case field properties ''links'' of
             None \<Rightarrow> None
           | Some links_data \<Rightarrow> field links_data k))"

definition direct_source :: "json \<Rightarrow> string \<Rightarrow> json option" where
  "direct_source metadata k =
     (case field metadata k of
        None \<Rightarrow> field metadata (k @ ''_link'')
      | Some v \<Rightarrow> Some v)"

definition override :: "json option \<Rightarrow> json \<Rightarrow> json" where
  "override source earlier = (case source of None \<Rightarrow> earlier | Some v \<Rightarrow> v)"

definition populated :: "json \<Rightarrow> string \<Rightarrow> json" where
  "populated metadata k =
     override (direct_source metadata k) (override (nested_source metadata k) unavailable)"

text \<open>
  The metadata documents \<open>get_token_links\<close> reads to the end: an object whose
  \<open>properties\<close>, when present, is an object whose \<open>links\<close>, when present, is an
  object (or an array or a string in which \<open>'links'\<close> does not occur, which the
  membership test passes over). On every other body one of the lookups raises.
\<close>

definition well_formed :: "json \<Rightarrow> bool" where
  "well_formed metadata =
     (case metadata of
        JObj kvs \<Rightarrow>
          (case map_of kvs ''properties'' of
             None \<Rightarrow> True
           | Some properties \<Rightarrow>
               (case properties of
                  JObj pk \<Rightarrow>
                    (case map_of pk ''links'' of
                       None \<Rightarrow> True
                     | Some links_data \<Rightarrow> (case links_data of JObj lk \<Rightarrow> True | _ \<Rightarrow> False))
                | JArr xs \<Rightarrow> JStr ''links'' \<notin> set xs
                | JStr str \<Rightarrow> \<not> contains ''links'' str
                | _ \<Rightarrow> False))
      | _ \<Rightarrow> False)"

text \<open>The number of lines of a text file: its line feeds.\<close>

definition line_count :: "string \<Rightarrow> nat" where
  "line_count text = length (filter (\<lambda>c. c = CHR 0x0A) text)"

text \<open>
  For the examples only: the two builtins as they are on ASCII text (letters \<open>A-Z\<close>
  lower-cased, ASCII letters and digits alphanumeric). The examples hold ASCII text
  only, where this is what Python computes; the general statements about the program
  do not use this instance and hold for every value of the two builtins.
\<close>

definition ascii_upper :: string where
  "ascii_upper = ''ABCDEFGHIJKLMNOPQRSTUVWXYZ''"

definition ascii_lower :: string where
  "ascii_lower = ''abcdefghijklmnopqrstuvwxyz''"

definition ascii_digits :: string where
  "ascii_digits = ''0123456789''"

definition ascii_builtins :: builtins where
  "ascii_builtins =
     \<lparr>str_lower = map (\<lambda>c. case map_of (zip ascii_upper ascii_lower) c of
                                None \<Rightarrow> c | Some l \<Rightarrow> l),
      str_isalnum = (\<lambda>c. c \<in> set (ascii_upper @ ascii_lower @ ascii_digits))\<rparr>"

text \<open>A metadata document used in the examples.\<close>

definition sample_metadata :: json where
  "sample_metadata =
     JObj [(''name'', JStr ''coin''),
           (''properties'', JObj [(''links'', JObj [(''twitter'', JStr ''https://x.com/old/status/1''),
                                                  (''website'', JStr ''https://nested.example'')])]),
           (''twitter_link'', JStr ''https://x.com/alice/status/999'')]"

text \<open>
  The four wire shapes of a new-token frame, by their tag, and the field that carries
  the metadata URI: \<open>uri\<close>, or \<open>metadataUri\<close> when there is no \<open>uri\<close>.
\<close>

definition is_method_frame :: "json \<Rightarrow> bool" where
  "is_method_frame data = (field data ''method'' = Some (JStr ''newToken''))"

definition is_type_frame :: "json \<Rightarrow> bool" where
  "is_type_frame data = (field data ''type'' = Some (JStr ''newToken''))"

definition is_event_frame :: "json \<Rightarrow> bool" where
  "is_event_frame data = (field data ''event'' = Some (JStr ''token_created''))"

definition is_flat_frame :: "json \<Rightarrow> bool" where
  "is_flat_frame data =
     (field data ''mint'' \<noteq> None \<and> field data ''txType'' = Some (JStr ''create''))"

definition carries :: "json \<Rightarrow> json \<Rightarrow> bool" where
  "carries payload u =
     (field payload ''uri'' = Some u
      \<or> (field payload ''uri'' = None \<and> field payload ''metadataUri'' = Some u))"

text \<open>
  The normalized event with metadata URI \<open>u\<close>, as a payload for \<open>process_token\<close>:
  \<open>process_token\<close> reads nothing of its payload but that URI.
\<close>

definition token_creation_event :: "json \<Rightarrow> json" where
  "token_creation_event u = JObj [(''uri'', u)]"

text \<open>
  The identity \<open>process_token\<close> extracts for an event in a given world (account and
  message id, both non-empty, from a social link that is not the sentinel), and its
  ledger key \<open>message_id|account\<close>.
\<close>

definition identity :: "builtins \<Rightarrow> env \<Rightarrow> json \<Rightarrow> (string \<times> string) option" where
  "identity py e token_data =
     (case token_uri token_data of
        Inl x \<Rightarrow> None
      | Inr uri \<Rightarrow>
          (let link = twitter (get_token_links (net e) uri) in
           if link = unavailable then None
           else (case (extract_account_name py link, extract_tweet_id link) of
                   (Some account, Some message_id) \<Rightarrow>
                     if account = [] \<or> message_id = [] then None
                     else Some (account, message_id)
                 | _ \<Rightarrow> None)))"

definition dedup_key :: "builtins \<Rightarrow> env \<Rightarrow> json \<Rightarrow> string option" where
  "dedup_key py e token_data =
     map_option (\<lambda>(account, message_id). message_id @ ''|'' @ account)
       (identity py e token_data)"

text \<open>The end-to-end scenario: a flat frame, a resolver that answers with a link of
  \<open>alice\<close>, and a bot that allows \<open>alice\<close>.\<close>

definition sample_frame :: json where
  "sample_frame = JObj [(''mint'', JStr ''abc''), (''txType'', JStr ''create''),
                        (''uri'', JStr ''https://meta.example/1'')]"

definition sample_net :: "json \<Rightarrow> fetch_result" where
  "sample_net uri = Response 200 (JsonBody sample_metadata)"

definition sample_bot :: bot where
  "sample_bot = \<lparr>tweet_blacklist = [], allowed_accounts = [''alice''],
                  blacklist_file = [], trace = []\<rparr>"

definition sample_uri :: json where
  "sample_uri = JStr ''https://meta.example/1''"

definition sample_link :: json where
  "sample_link = JStr ''https://x.com/alice/status/999''"

definition sample_env :: env where
  "sample_env = \<lparr>net = sample_net, disk = Written\<rparr>"

text \<open>The same world with a ledger file that cannot be opened.\<close>

definition failing_env :: env where
  "failing_env = \<lparr>net = sample_net, disk = WriteError []\<rparr>"

text \<open>A body whose \<open>properties\<close> is \<open>null\<close>, with a top-level link.\<close>

definition null_properties :: json where
  "null_properties = JObj [(''properties'', JNull), (''twitter'', sample_link)]"

text \<open>A frame tagged both as a method notification (without \<open>params\<close>) and as a
  type-tagged object.\<close>

definition double_tagged_frame :: json where
  "double_tagged_frame = JObj [(''method'', JStr ''newToken''), (''type'', JStr ''newToken''),
                               (''uri'', sample_uri)]"

text \<open>A social link whose message id holds a line feed, and a resolver that answers
  with it.\<close>

definition two_line_link :: json where
  "two_line_link = JStr (''https://x.com/alice/status/9'' @ [CHR 0x0A] @ ''9'')"

definition two_line_env :: env where
  "two_line_env =
     \<lparr>net = (\<lambda>uri. Response 200 (JsonBody (JObj [(''twitter'', two_line_link)]))),
      disk = Written\<rparr>"

section \<open>Facts about the string operations\<close>

lemma split_on_nonempty [simp]: "split_on sep s \<noteq> []"
  by (induction sep s rule: split_on.induct) (auto split: list.splits)

lemma hd_split_on_char: "hd (split_on [c] s) = takeWhile (\<lambda>x. x \<noteq> c) s"
  by (induction s) (auto split: list.splits)


lemma contains_sublist: "contains sub s = sublist sub s"
  by (induction s) (simp_all add: sublist_Cons_right)

lemma contains_char: "contains [c] s = (c \<in> set s)"
  by (induction s) auto

lemma split_on_absent: "\<not> contains sep s \<Longrightarrow> split_on sep s = [s]"
  by (induction s) (auto split: list.splits)



lemma prefix_until:
  "c \<notin> set a \<Longrightarrow> c \<notin> set p \<Longrightarrow> prefix (p @ [c]) (a @ c # r) \<longleftrightarrow> a = p"
proof (induction p arbitrary: a)
  case Nil
  then show ?case by (cases a) auto
next
  case (Cons y p)
  then show ?case by (cases a) auto
qed

lemma split_on_skip:
  "c \<notin> set a \<Longrightarrow> split_on (c # sep) (a @ (c # sep) @ b) = a # split_on (c # sep) b"
  by (induction a) auto

lemma takeWhile_stop: "\<not> P y \<Longrightarrow> takeWhile P (xs @ y # ys) = takeWhile P xs"
  by (induction xs) auto

lemma takeWhile_twice: "takeWhile P (takeWhile Q xs) = takeWhile (\<lambda>x. P x \<and> Q x) xs"
  by (induction xs) auto

lemma prefix_append_absent:
  assumes "sep \<noteq> []" and "last sep \<notin> set b"
  shows "prefix sep (u @ b) \<longleftrightarrow> prefix sep u"
proof
  assume "prefix sep (u @ b)"
  then have "prefix sep u \<or> (\<exists>us. sep = u @ us \<and> prefix us b)"
    by (simp add: prefix_append)
  then show "prefix sep u"
  proof
    assume "prefix sep u" then show ?thesis .
  next
    assume "\<exists>us. sep = u @ us \<and> prefix us b"
    then obtain us where us: "sep = u @ us" "prefix us b" by blast
    show ?thesis
    proof (cases "us = []")
      case True
      with us show ?thesis by simp
    next
      case False
      then have "last sep = last us" using us(1) by simp
      moreover have "last us \<in> set us" using False by simp
      moreover have "set us \<subseteq> set b" using us(2) by (rule set_mono_prefix)
      ultimately show ?thesis using assms(2) by auto
    qed
  qed
next
  assume "prefix sep u"
  then show "prefix sep (u @ b)" by (rule prefix_prefix)
qed

lemma contains_append_right:
  assumes "sep \<noteq> []" and "last sep \<notin> set b"
  shows "contains sep (a @ b) = contains sep a"
proof (induction a)
  case Nil
  have "\<not> sublist sep b"
  proof
    assume "sublist sep b"
    then have "set sep \<subseteq> set b" by (rule set_mono_sublist)
    moreover have "last sep \<in> set sep" using assms(1) by simp
    ultimately show False using assms(2) by auto
  qed
  then show ?case using assms(1) by (simp add: contains_sublist)
next
  case (Cons x a)
  have "prefix sep ((x # a) @ b) \<longleftrightarrow> prefix sep (x # a)"
    using assms by (rule prefix_append_absent)
  with Cons show ?case by simp
qed

section \<open>Link parser: properties\<close>

lemma status_url_split:
  assumes "CHR ''/'' \<notin> set acct" and "acct \<noteq> ''status''"
  shows "split_on ''/status/'' (''https://x.com/'' @ acct @ ''/status/'' @ b) =
         (''https://x.com/'' @ acct) # split_on ''/status/'' b"
proof -
  have np: "\<not> prefix ''status/'' (acct @ CHR ''/'' # ''status/'' @ b)"
    using prefix_until [of "CHR ''/''" acct "''status''" "''status/'' @ b"] assms by simp
  have sk: "split_on ''/status/'' (acct @ ''/status/'' @ b) = acct # split_on ''/status/'' b"
    using split_on_skip [of "CHR ''/''" acct "''status/''" b] assms(1) by simp
  show ?thesis using np sk by simp
qed

lemma py_index_hd_split: "py_index (split_on sep s) 0 = Inr (hd (split_on sep s))"
  by (cases "split_on sep s") (simp_all add: py_index_def)

lemma account_body_str:
  "extract_account_name_body py (JStr url) =
     Inr (scan_parts py (split_on ''/''
       (let link1 = (if contains ''#'' url then hd (split_on ''#'' url) else url)
        in if contains ''/status/'' link1 then hd (split_on ''/status/'' link1) else link1)))"
  unfolding extract_account_name_body_def
  by (simp add: bind_exn_def py_index_hd_split Let_def del: split_on.simps contains.simps)

lemma tweet_id_body_str:
  "extract_tweet_id_body (JStr url) =
     (if contains ''/status/'' url
      then (case py_index (split_on ''/status/'' url) 1 of
              Inl e \<Rightarrow> Inl e
            | Inr p \<Rightarrow> Inr (Some (takeWhile (\<lambda>x. x \<noteq> CHR ''?'') (takeWhile (\<lambda>x. x \<noteq> CHR ''#'') p))))
      else Inr None)"
  unfolding extract_tweet_id_body_def
  by (simp add: bind_exn_def py_index_hd_split hd_split_on_char
           del: split_on.simps contains.simps split: sum.splits)

lemma account_of_status_url:
  assumes "CHR ''/'' \<notin> set acct" and "CHR ''#'' \<notin> set acct" and "acct \<noteq> ''status''"
  shows "extract_account_name_body py (JStr (''https://x.com/'' @ acct @ ''/status/'' @ rest @ ''#y''))
         = Inr (Some (clean_account py acct))"
proof -
  define url where "url = ''https://x.com/'' @ acct @ ''/status/'' @ rest @ ''#y''"
  define r where "r = takeWhile (\<lambda>x. x \<noteq> CHR ''#'') (rest @ ''#y'')"
  define l1 where "l1 = ''https://x.com/'' @ acct @ ''/status/'' @ r"
  have h: "contains ''#'' url" by (simp add: contains_char url_def)
  have "takeWhile (\<lambda>x. x \<noteq> CHR ''#'') ((''https://x.com/'' @ acct @ ''/status/'') @ rest @ ''#y'')
        = (''https://x.com/'' @ acct @ ''/status/'') @ r"
    unfolding r_def by (rule takeWhile_append2) (use assms(2) in auto)
  then have e1: "hd (split_on ''#'' url) = l1"
    unfolding hd_split_on_char url_def l1_def by simp
  have "sublist ''/status/'' ((''https://x.com/'' @ acct) @ ''/status/'' @ r)"
    by (rule sublist_appendI)
  then have c2: "contains ''/status/'' l1"
    unfolding contains_sublist l1_def by simp
  define base where "base = ''https://x.com/'' @ acct"
  have e2: "hd (split_on ''/status/'' l1) = base"
    unfolding l1_def base_def using status_url_split [OF assms(1) assms(3), of r] by simp
  have "split_on ''/'' acct = [acct]"
    by (rule split_on_absent) (simp add: contains_char assms(1))
  then have parts: "split_on ''/'' base = [''https:'', [], ''x.com'', acct]"
    unfolding base_def by simp
  have "extract_account_name_body py (JStr url) = Inr (Some (clean_account py acct))"
    unfolding account_body_str by (simp add: h e1 c2 e2 parts del: split_on.simps contains.simps)
  then show ?thesis unfolding url_def .
qed

lemma id_of_status_url:
  assumes "CHR ''/'' \<notin> set acct" and "acct \<noteq> ''status''" and "\<not> contains ''/status/'' ident"
  shows "extract_tweet_id_body (JStr (''https://x.com/'' @ acct @ ''/status/'' @ ident @ ''?x=1#y''))
         = Inr (Some (takeWhile (\<lambda>c. c \<noteq> CHR ''#'' \<and> c \<noteq> CHR ''?'') ident))"
proof -
  define url where "url = ''https://x.com/'' @ acct @ ''/status/'' @ ident @ ''?x=1#y''"
  define tail where "tail = ident @ ''?x=1#y''"
  have "sublist ''/status/'' ((''https://x.com/'' @ acct) @ ''/status/'' @ ident @ ''?x=1#y'')"
    by (rule sublist_appendI)
  then have c: "contains ''/status/'' url"
    unfolding contains_sublist url_def by simp
  have "contains ''/status/'' (ident @ ''?x=1#y'') = contains ''/status/'' ident"
    by (rule contains_append_right) simp_all
  then have "\<not> contains ''/status/'' tail"
    using assms(3) unfolding tail_def by simp
  then have "split_on ''/status/'' tail = [tail]"
    by (rule split_on_absent)
  moreover have "split_on ''/status/'' (''https://x.com/'' @ acct @ ''/status/'' @ tail)
                 = (''https://x.com/'' @ acct) # split_on ''/status/'' tail"
    using assms(1) assms(2) by (rule status_url_split)
  ultimately have sp: "split_on ''/status/'' url = [''https://x.com/'' @ acct, tail]"
    unfolding url_def tail_def by simp
  have "takeWhile (\<lambda>x. x \<noteq> CHR ''?'') (takeWhile (\<lambda>x. x \<noteq> CHR ''#'') tail)
        = takeWhile (\<lambda>x. x \<noteq> CHR ''?'' \<and> x \<noteq> CHR ''#'') (ident @ CHR ''?'' # ''x=1#y'')"
    unfolding tail_def by (simp add: takeWhile_twice)
  also have "\<dots> = takeWhile (\<lambda>x. x \<noteq> CHR ''?'' \<and> x \<noteq> CHR ''#'') ident"
    by (rule takeWhile_stop) simp
  also have "\<dots> = takeWhile (\<lambda>c. c \<noteq> CHR ''#'' \<and> c \<noteq> CHR ''?'') ident"
    by (rule arg_cong [where f = "\<lambda>P. takeWhile P ident"]) auto
  finally have tw: "takeWhile (\<lambda>x. x \<noteq> CHR ''?'') (takeWhile (\<lambda>x. x \<noteq> CHR ''#'') tail)
        = takeWhile (\<lambda>c. c \<noteq> CHR ''#'' \<and> c \<noteq> CHR ''?'') ident" .
  have "extract_tweet_id_body (JStr url)
        = Inr (Some (takeWhile (\<lambda>c. c \<noteq> CHR ''#'' \<and> c \<noteq> CHR ''?'') ident))"
    unfolding tweet_id_body_str by (simp add: c sp py_index_def tw)
  then show ?thesis unfolding url_def .
qed

text \<open>
  Claim C8, as amended. For every URL \<open>https://x.com/<acct>/status/<id>?x=1#y\<close> whose
  \<open><acct>\<close> is one path segment (it contains neither \<open>/\<close> nor \<open>#\<close>) other than
  the word \<open>status\<close>, and whose \<open><id>\<close> does not contain \<open>/status/\<close>:
  \<open>extract_account_name\<close> returns \<open><acct>\<close> lower-cased by \<open>str.lower\<close>, with every
  character that \<open>str.isalnum\<close> rejects and that is not an underscore removed, and
  \<open>extract_tweet_id\<close> returns \<open><id>\<close> up to its first \<open>#\<close> or \<open>?\<close>. This holds
  whatever the two builtins compute, on ASCII text and beyond.
\<close>

theorem link_parsing_round_trip:
  assumes "CHR ''/'' \<notin> set acct" and "CHR ''#'' \<notin> set acct" and "acct \<noteq> ''status''"
    and "\<not> contains ''/status/'' ident"
  shows "extract_account_name py (JStr (status_url acct ident))
           = Some (filter (\<lambda>c. str_isalnum py c \<or> c = CHR ''_'') (str_lower py acct))
       \<and> extract_tweet_id (JStr (status_url acct ident))
           = Some (takeWhile (\<lambda>c. c \<noteq> CHR ''#'' \<and> c \<noteq> CHR ''?'') ident)"
proof
  have "extract_account_name_body py (JStr (''https://x.com/'' @ acct @ ''/status/'' @ (ident @ ''?x=1'') @ ''#y''))
        = Inr (Some (clean_account py acct))"
    using assms(1-3) by (rule account_of_status_url)
  then show "extract_account_name py (JStr (status_url acct ident))
           = Some (filter (\<lambda>c. str_isalnum py c \<or> c = CHR ''_'') (str_lower py acct))"
    by (simp add: extract_account_name_def status_url_def clean_account_def)
next
  have "extract_tweet_id_body (JStr (''https://x.com/'' @ acct @ ''/status/'' @ ident @ ''?x=1#y''))
         = Inr (Some (takeWhile (\<lambda>c. c \<noteq> CHR ''#'' \<and> c \<noteq> CHR ''?'') ident))"
    using assms(1,3,4) by (rule id_of_status_url)
  then show "extract_tweet_id (JStr (status_url acct ident))
           = Some (takeWhile (\<lambda>c. c \<noteq> CHR ''#'' \<and> c \<noteq> CHR ''?'') ident)"
    by (simp add: extract_tweet_id_def status_url_def)
qed

text \<open>
  The round trip on \<open>https://x.com/Al-Ice_9/status/999?x=1#y\<close>, an ASCII link.
\<close>

theorem link_parsing_round_trip_witness:
  "extract_account_name ascii_builtins (JStr (status_url ''Al-Ice_9'' ''999'')) = Some ''alice_9''
   \<and> extract_tweet_id (JStr (status_url ''Al-Ice_9'' ''999'')) = Some ''999''"
  using link_parsing_round_trip [where acct = "''Al-Ice_9''" and ident = "''999''"
      and py = ascii_builtins]
  by (simp add: ascii_builtins_def ascii_upper_def ascii_lower_def ascii_digits_def)

text \<open>
  The account named \<open>status\<close>: the first \<open>/status/\<close> of
  \<open>https://x.com/status/status/999?x=1#y\<close> is the account segment itself, so no
  account is found and the message id comes out as \<open>status/999\<close>.
\<close>

theorem link_parsing_round_trip_counterexample:
  "extract_account_name ascii_builtins (JStr (status_url ''status'' ''999'')) = None
   \<and> extract_tweet_id (JStr (status_url ''status'' ''999'')) = Some ''status/999''
   \<and> takeWhile (\<lambda>c. c \<noteq> CHR ''#'' \<and> c \<noteq> CHR ''?'') ''999'' = ''999''"
  by code_simp




section \<open>Metadata resolver: properties\<close>

lemma map_of_None_keys: "(k \<in> fst ` set kvs) = (map_of kvs k \<noteq> None)"
  by (simp add: map_of_eq_None_iff)

lemma py_get_error: "py_get v k d = Inl e \<Longrightarrow> \<forall>kvs. v \<noteq> JObj kvs"
  by (cases v) auto

lemma nested_links_non_object:
  "\<forall>kvs. metadata \<noteq> JObj kvs \<Longrightarrow> nested_links metadata l = Inr l1 \<Longrightarrow> l1 = l"
  by (cases metadata) (auto simp: nested_links_def bind_exn_def split: if_splits)

lemma direct_links_error:
  "direct_links metadata l = Inl e \<Longrightarrow> \<forall>kvs. metadata \<noteq> JObj kvs"
  by (cases metadata) (auto simp: direct_links_def bind_exn_def)

lemma caught_gives_defaults:
  "get_token_links_try http_get uri = (l, rq, Some e) \<Longrightarrow> l = default_links"
  unfolding get_token_links_try_def Let_def
  by (auto split: if_splits fetch_result.splits body.splits sum.splits
           dest: direct_links_error nested_links_non_object)

text \<open>
  Claim C6. On an absent (falsy) URI \<open>get_token_links\<close> returns the bundle of three
  \<open>'Non disponible'\<close> without calling \<open>requests.get\<close>. On a present URI, a timeout,
  a transport error, a status other than 200 or a body that is not JSON gives the same
  bundle; and whenever one of the two \<open>except\<close> clauses catches anything at all,
  the bundle returned is that one. The function always returns a bundle.
\<close>

theorem resolver_fail_safe:
  "(\<not> truthy uri \<longrightarrow> get_token_links_try http_get uri = (default_links, [], None))
   \<and> (truthy uri \<and>
        (http_get uri = TimedOut \<or> http_get uri = Failed
         \<or> (\<exists>status content. http_get uri = Response status content \<and> status \<noteq> 200)
         \<or> http_get uri = Response 200 NotJson)
      \<longrightarrow> get_token_links http_get uri = default_links)
   \<and> (snd (snd (get_token_links_try http_get uri)) \<noteq> None
      \<longrightarrow> get_token_links http_get uri = default_links)"
proof (intro conjI impI)
  assume "\<not> truthy uri"
  then show "get_token_links_try http_get uri = (default_links, [], None)"
    by (simp add: get_token_links_try_def)
next
  assume "truthy uri \<and>
        (http_get uri = TimedOut \<or> http_get uri = Failed
         \<or> (\<exists>status content. http_get uri = Response status content \<and> status \<noteq> 200)
         \<or> http_get uri = Response 200 NotJson)"
  then show "get_token_links http_get uri = default_links"
    by (auto simp: get_token_links_def get_token_links_try_def)
next
  assume "snd (snd (get_token_links_try http_get uri)) \<noteq> None"
  then obtain l rq e where "get_token_links_try http_get uri = (l, rq, Some e)"
    by (cases "get_token_links_try http_get uri") auto
  then show "get_token_links http_get uri = default_links"
    using caught_gives_defaults by (simp add: get_token_links_def)
qed

lemma nested_links_object:
  assumes "nested_links (JObj kvs) l = Inr l1"
  shows "twitter l1 = override (nested_source (JObj kvs) ''twitter'') (twitter l)
       \<and> website l1 = override (nested_source (JObj kvs) ''website'') (website l)
       \<and> telegram l1 = override (nested_source (JObj kvs) ''telegram'') (telegram l)"
proof (cases "map_of kvs ''properties''")
  case None
  then show ?thesis
    using assms by (simp add: nested_links_def bind_exn_def map_of_None_keys nested_source_def override_def)
next
  case (Some properties)
  note props = Some
  show ?thesis
  proof (cases properties)
    case (JObj pk)
    show ?thesis
    proof (cases "map_of pk ''links''")
      case None
      then show ?thesis
        using assms props JObj
        by (simp add: nested_links_def bind_exn_def map_of_None_keys nested_source_def override_def)
    next
      case (Some links_data)
      then show ?thesis
        using assms props JObj
        by (cases links_data)
           (auto simp: nested_links_def bind_exn_def map_of_None_keys nested_source_def override_def
                 split: option.splits)
    qed
  qed (use assms props in \<open>auto simp: nested_links_def bind_exn_def map_of_None_keys
         nested_source_def override_def split: if_splits\<close>)
qed

lemma direct_links_object:
  "direct_links (JObj kvs) l =
     Inr (l\<lparr>twitter := override (direct_source (JObj kvs) ''twitter'') (twitter l),
           website := override (direct_source (JObj kvs) ''website'') (website l),
           telegram := override (direct_source (JObj kvs) ''telegram'') (telegram l)\<rparr>)"
  by (simp add: direct_links_def bind_exn_def direct_source_def override_def split: option.splits)

lemma nested_links_reads:
  "(\<exists>l1. nested_links (JObj kvs) l = Inr l1) = well_formed (JObj kvs)"
proof (cases "map_of kvs ''properties''")
  case None
  then show ?thesis
    by (simp add: nested_links_def bind_exn_def map_of_None_keys well_formed_def)
next
  case (Some properties)
  note props = Some
  show ?thesis
  proof (cases properties)
    case (JObj pk)
    show ?thesis
    proof (cases "map_of pk ''links''")
      case None
      then show ?thesis
        using props JObj
        by (simp add: nested_links_def bind_exn_def map_of_None_keys well_formed_def)
    next
      case (Some links_data)
      then show ?thesis
        using props JObj
        by (cases links_data)
           (simp_all add: nested_links_def bind_exn_def map_of_None_keys well_formed_def)
    qed
  qed (use props in \<open>simp_all add: nested_links_def bind_exn_def map_of_None_keys
         well_formed_def\<close>)
qed

lemma read_to_end:
  assumes "truthy uri" and "http_get uri = Response 200 (JsonBody metadata)"
  shows "(snd (snd (get_token_links_try http_get uri)) = None) = well_formed metadata"
proof (cases "\<exists>kvs. metadata = JObj kvs")
  case True
  then obtain kvs where m: "metadata = JObj kvs" by blast
  show ?thesis
    using assms nested_links_reads [of kvs default_links] unfolding m
    by (auto simp: get_token_links_try_def direct_links_object split: sum.splits)
next
  case False
  then have d: "direct_links metadata l = Inl AttributeError" for l
    by (cases metadata) (simp_all add: direct_links_def bind_exn_def)
  have "\<not> well_formed metadata"
    using False by (cases metadata) (simp_all add: well_formed_def)
  then show ?thesis
    using assms by (simp add: get_token_links_try_def d split: sum.splits)
qed

lemma populated_when_read:
  assumes "truthy uri"
    and "http_get uri = Response 200 (JsonBody metadata)"
    and "snd (snd (get_token_links_try http_get uri)) = None"
  shows "twitter (get_token_links http_get uri) = populated metadata ''twitter''
       \<and> website (get_token_links http_get uri) = populated metadata ''website''
       \<and> telegram (get_token_links http_get uri) = populated metadata ''telegram''"
proof -
  from assms obtain l1 l2 where n: "nested_links metadata default_links = Inr l1"
    and d: "direct_links metadata l1 = Inr l2"
    and r: "get_token_links http_get uri = l2"
    by (auto simp: get_token_links_def get_token_links_try_def split: sum.splits)
  show ?thesis
  proof (cases metadata)
    case (JObj kvs)
    have "twitter l1 = override (nested_source metadata ''twitter'') unavailable
        \<and> website l1 = override (nested_source metadata ''website'') unavailable
        \<and> telegram l1 = override (nested_source metadata ''telegram'') unavailable"
      using nested_links_object [of kvs default_links l1] n JObj by (simp add: default_links_def)
    then show ?thesis
      using d r JObj by (auto simp: direct_links_object populated_def)
  qed (use d in \<open>simp_all add: direct_links_def bind_exn_def\<close>)
qed

text \<open>
  Claim C7, as amended. After a fetch with status 200 and a JSON body that is an object
  whose \<open>properties\<close>, when present, is an object whose \<open>links\<close>, when present,
  is an object (or an array or string in which \<open>'links'\<close> does not occur), each of
  the three fields is the default \<open>'Non disponible'\<close>, overridden by
  \<open>properties.links.<key>\<close> when that key is present, overridden in turn by the
  top-level \<open><key>\<close> (or, without it, \<open><key>_link\<close>) when present; an absent key
  leaves the earlier value. On every other body all three fields keep the default,
  whatever keys the body holds.
\<close>

theorem resolver_population_order:
  assumes "truthy uri" and "http_get uri = Response 200 (JsonBody metadata)"
  shows "(well_formed metadata
          \<longrightarrow> twitter (get_token_links http_get uri) = populated metadata ''twitter''
              \<and> website (get_token_links http_get uri) = populated metadata ''website''
              \<and> telegram (get_token_links http_get uri) = populated metadata ''telegram'')
       \<and> (\<not> well_formed metadata \<longrightarrow> get_token_links http_get uri = default_links)"
proof (rule conjI; rule impI)
  assume "well_formed metadata"
  then have none: "snd (snd (get_token_links_try http_get uri)) = None"
    using read_to_end [of uri http_get metadata] assms by simp
  show "twitter (get_token_links http_get uri) = populated metadata ''twitter''
              \<and> website (get_token_links http_get uri) = populated metadata ''website''
              \<and> telegram (get_token_links http_get uri) = populated metadata ''telegram''"
    by (rule populated_when_read [of uri http_get metadata, OF assms(1) assms(2) none])
next
  assume "\<not> well_formed metadata"
  then have "snd (snd (get_token_links_try http_get uri)) \<noteq> None"
    using read_to_end [of uri http_get metadata] assms by simp
  then obtain l rq e where "get_token_links_try http_get uri = (l, rq, Some e)"
    by (cases "get_token_links_try http_get uri") auto
  then show "get_token_links http_get uri = default_links"
    using caught_gives_defaults by (simp add: get_token_links_def)
qed

text \<open>
  A document with a nested \<open>twitter\<close> and \<open>website\<close> and a top-level
  \<open>twitter_link\<close>: the top-level link wins, the nested website stays, the telegram
  field keeps its default. A document whose \<open>properties\<close> is an array that holds
  \<open>'links'\<close> gives the defaults.
\<close>

theorem resolver_population_order_witness:
  "twitter (get_token_links (\<lambda>u. Response 200 (JsonBody sample_metadata)) (JStr ''https://meta.example/1''))
     = JStr ''https://x.com/alice/status/999''
   \<and> website (get_token_links (\<lambda>u. Response 200 (JsonBody sample_metadata)) (JStr ''https://meta.example/1''))
     = JStr ''https://nested.example''
   \<and> telegram (get_token_links (\<lambda>u. Response 200 (JsonBody sample_metadata)) (JStr ''https://meta.example/1''))
     = JStr ''Non disponible''
   \<and> get_token_links (\<lambda>u. Response 200 (JsonBody (JObj [(''properties'', JArr [JStr ''links''])])))
        (JStr ''https://meta.example/1'') = default_links"
  using resolver_population_order [where uri = "JStr ''https://meta.example/1''"
        and http_get = "\<lambda>u. Response 200 (JsonBody sample_metadata)" and metadata = sample_metadata]
    resolver_population_order [where uri = "JStr ''https://meta.example/1''"
        and http_get = "\<lambda>u. Response 200 (JsonBody (JObj [(''properties'', JArr [JStr ''links''])]))"
        and metadata = "JObj [(''properties'', JArr [JStr ''links''])]"]
  by (simp add: populated_def override_def direct_source_def nested_source_def
        sample_metadata_def unavailable_def well_formed_def)

text \<open>
  A body whose \<open>properties\<close> is \<open>null\<close>: the top-level \<open>twitter\<close> key is
  present, yet the membership test on \<open>null\<close> raises, the handler catches it, and
  the field keeps its default.
\<close>

theorem resolver_population_order_counterexample:
  "field null_properties ''twitter'' = Some sample_link
   \<and> populated null_properties ''twitter'' = sample_link
   \<and> twitter (get_token_links (\<lambda>u. Response 200 (JsonBody null_properties)) sample_uri)
       = JStr ''Non disponible''
   \<and> sample_link \<noteq> JStr ''Non disponible''"
  by (simp add: null_properties_def populated_def override_def direct_source_def nested_source_def
        get_token_links_def get_token_links_try_def nested_links_def bind_exn_def sample_uri_def
        sample_link_def default_links_def unavailable_def)

text \<open>
  The empty URI, a status 500, and a body whose \<open>properties\<close> is \<open>null\<close>.
\<close>

theorem resolver_fail_safe_witness:
  "get_token_links_try (\<lambda>u. TimedOut) (JStr []) = (default_links, [], None)
   \<and> get_token_links (\<lambda>u. Response 500 (JsonBody sample_metadata)) (JStr ''https://meta.example/1'')
       = default_links
   \<and> get_token_links (\<lambda>u. Response 200 (JsonBody (JObj [(''properties'', JNull),
         (''twitter'', JStr ''https://x.com/alice/status/999'')]))) (JStr ''https://meta.example/1'')
       = default_links"
proof -
  have "snd (snd (get_token_links_try (\<lambda>u. Response 200 (JsonBody (JObj [(''properties'', JNull),
         (''twitter'', JStr ''https://x.com/alice/status/999'')]))) (JStr ''https://meta.example/1'')))
        \<noteq> None"
    by (simp add: get_token_links_try_def nested_links_def bind_exn_def)
  then show ?thesis
    using resolver_fail_safe [of "JStr []" "\<lambda>u. TimedOut"]
      resolver_fail_safe [of "JStr ''https://meta.example/1''"
        "\<lambda>u. Response 500 (JsonBody sample_metadata)"]
      resolver_fail_safe [of "JStr ''https://meta.example/1''"
        "\<lambda>u. Response 200 (JsonBody (JObj [(''properties'', JNull),
         (''twitter'', JStr ''https://x.com/alice/status/999'')]))"]
    by simp
qed

section \<open>Event classifier: properties\<close>

lemma tag_is_object: "tag_is (JObj kvs) k v = Inr (map_of kvs k = Some (JStr v))"
  by (cases "map_of kvs k") (simp_all add: tag_is_def bind_exn_def map_of_None_keys)

lemma tag_is_other: "\<forall>kvs. data \<noteq> JObj kvs \<Longrightarrow> tag_is data k v \<noteq> Inr True"
  by (cases data) (simp_all add: tag_is_def bind_exn_def)

lemma classify_object:
  "classify (JObj kvs) =
     (if map_of kvs ''method'' = Some (JStr ''newToken'')
      then (case map_of kvs ''params'' of None \<Rightarrow> Inl KeyError | Some p \<Rightarrow> Inr (Some p))
      else if map_of kvs ''type'' = Some (JStr ''newToken'') then Inr (Some (JObj kvs))
      else if map_of kvs ''event'' = Some (JStr ''token_created'')
      then (case map_of kvs ''data'' of None \<Rightarrow> Inl KeyError | Some p \<Rightarrow> Inr (Some p))
      else if map_of kvs ''mint'' \<noteq> None \<and> map_of kvs ''txType'' = Some (JStr ''create'')
      then Inr (Some (JObj kvs))
      else Inr None)"
  unfolding classify_def tag_is_object
  by (simp add: bind_exn_def map_of_None_keys split: option.splits)

lemma bind_exn_not_True:
  "m \<noteq> Inr True \<Longrightarrow> f False \<noteq> Inr (Some t) \<Longrightarrow> bind_exn m (\<lambda>b. if b then g b else f b) \<noteq> Inr (Some t)"
  by (cases m) (auto simp: bind_exn_def)

lemma classify_other:
  assumes "\<forall>kvs. data \<noteq> JObj kvs"
  shows "classify data \<noteq> Inr (Some token_data)"
proof -
  have t: "tag_is data k v \<noteq> Inr True" for k v
    using assms by (rule tag_is_other)
  have last: "bind_exn (py_in ''mint'' data) (\<lambda>has_mint.
          bind_exn (if has_mint then tag_is data ''txType'' ''create'' else Inr False) (\<lambda>is_create.
     if is_create then Inr (Some data) else Inr None)) \<noteq> Inr (Some token_data)"
    using t [of "''txType''" "''create''"]
    by (cases "py_in ''mint'' data"; cases "tag_is data ''txType'' ''create''")
       (auto simp: bind_exn_def)
  show ?thesis
    unfolding classify_def
    by (intro bind_exn_not_True t last)
qed

lemma carries_object: "carries payload u \<Longrightarrow> \<exists>kvs. payload = JObj kvs"
  by (cases payload) (simp_all add: carries_def)

lemma token_uri_carries: "carries payload u \<Longrightarrow> token_uri payload = Inr u"
  by (cases payload) (auto simp: carries_def token_uri_def bind_exn_def)

section \<open>Facts about the filter gate\<close>

lemma try_requests:
  "get_token_links_try h uri = (l, rq, c) \<Longrightarrow> twitter l \<noteq> unavailable \<Longrightarrow> rq = [uri]"
  unfolding get_token_links_try_def Let_def
  by (auto simp: default_links_def split: if_splits fetch_result.splits body.splits sum.splits)

lemma process_token_error: "token_uri td = Inl x \<Longrightarrow> process_token py e s td = (Errored x, s)"
  by (simp add: process_token_def)

lemma process_token_no_link:
  assumes "token_uri td = Inr uri" and "twitter (get_token_links (net e) uri) = unavailable"
  shows "process_token py e s td =
         (Reject NoSocialLink,
          s\<lparr>trace := trace s @ map HttpGet (fst (snd (get_token_links_try (net e) uri)))\<rparr>)"
  using assms
  by (cases "get_token_links_try (net e) uri")
     (simp add: process_token_def get_token_links_def unavailable_def)

lemma process_token_unparsable:
  assumes "token_uri td = Inr uri" and "twitter (get_token_links (net e) uri) \<noteq> unavailable"
    and "identity py e td = None"
  shows "process_token py e s td = (Reject UnparsableLink, s\<lparr>trace := trace s @ [HttpGet uri]\<rparr>)"
proof -
  obtain l rq c where t: "get_token_links_try (net e) uri = (l, rq, c)"
    by (cases "get_token_links_try (net e) uri") auto
  with assms(2) have rq: "rq = [uri]"
    by (auto simp: get_token_links_def dest: try_requests)
  show ?thesis
    using assms t rq
    by (auto simp: process_token_def identity_def get_token_links_def unavailable_def Let_def
             split: option.splits if_splits)
qed

lemma identity_link:
  assumes "identity py e td = Some (a, m)"
  obtains uri where "token_uri td = Inr uri"
    and "twitter (get_token_links (net e) uri) \<noteq> unavailable"
    and "extract_account_name py (twitter (get_token_links (net e) uri)) = Some a"
    and "extract_tweet_id (twitter (get_token_links (net e) uri)) = Some m"
    and "a \<noteq> []" and "m \<noteq> []"
  using assms
  by (auto simp: identity_def Let_def split: sum.splits if_splits option.splits)

lemma process_token_identified:
  assumes "token_uri td = Inr uri" and "identity py e td = Some (a, m)"
  shows "process_token py e s td =
     (if m @ ''|'' @ a \<in> set (tweet_blacklist s)
      then (Reject AlreadyProcessed, s\<lparr>trace := trace s @ [HttpGet uri]\<rparr>)
      else if a \<notin> set (allowed_accounts s)
      then (Reject AccountNotAllowed, s\<lparr>trace := trace s @ [HttpGet uri]\<rparr>)
      else (Accept a m,
            (save_to_blacklist (disk e) m a (s\<lparr>trace := trace s @ [HttpGet uri]\<rparr>))
              \<lparr>trace := trace (save_to_blacklist (disk e) m a (s\<lparr>trace := trace s @ [HttpGet uri]\<rparr>))
                 @ [SendTweet (twitter (get_token_links (net e) uri)) a]\<rparr>))"
proof -
  obtain l rq c where t: "get_token_links_try (net e) uri = (l, rq, c)"
    by (cases "get_token_links_try (net e) uri") auto
  from assms have link: "twitter l \<noteq> unavailable"
    and acc: "extract_account_name py (twitter l) = Some a"
    and tid: "extract_tweet_id (twitter l) = Some m"
    and ne: "a \<noteq> []" "m \<noteq> []"
    using t by (auto simp: get_token_links_def elim!: identity_link)
  from t link have rq: "rq = [uri]" by (rule try_requests)
  show ?thesis
    using assms(1) t link acc tid ne rq
    by (simp add: process_token_def get_token_links_def unavailable_def Let_def)
qed

lemma save_to_blacklist_fields:
  "allowed_accounts (save_to_blacklist d m a s) = allowed_accounts s"
  "tweet_blacklist (save_to_blacklist d m a s) =
     (case d of Written \<Rightarrow> tweet_blacklist s @ [m @ ''|'' @ a] | WriteError part \<Rightarrow> tweet_blacklist s)"
  "blacklist_file (save_to_blacklist d m a s) =
     (case d of Written \<Rightarrow> blacklist_file s @ m @ ''|'' @ a @ [CHR 0x0A]
              | WriteError part \<Rightarrow> blacklist_file s @ part)"
  "trace (save_to_blacklist d m a s) =
     (case d of Written \<Rightarrow> trace s @ [FileAppend (m @ ''|'' @ a @ [CHR 0x0A]), LedgerAppend (m @ ''|'' @ a)]
              | WriteError part \<Rightarrow> trace s)"
  by (cases d; simp add: save_to_blacklist_def Let_def)+

lemma process_token_grows:
  "prefix (tweet_blacklist s) (tweet_blacklist (snd (process_token py e s td)))
   \<and> prefix (blacklist_file s) (blacklist_file (snd (process_token py e s td)))
   \<and> allowed_accounts (snd (process_token py e s td)) = allowed_accounts s"
proof (cases "token_uri td")
  case (Inl x)
  then show ?thesis by (simp add: process_token_error)
next
  case (Inr uri)
  show ?thesis
  proof (cases "twitter (get_token_links (net e) uri) = unavailable")
    case True
    with Inr show ?thesis by (simp add: process_token_no_link)
  next
    case False
    show ?thesis
    proof (cases "identity py e td")
      case None
      with Inr False show ?thesis by (simp add: process_token_unparsable)
    next
      case (Some p)
      then obtain a m where "identity py e td = Some (a, m)" by (cases p) auto
      with Inr show ?thesis
        by (simp add: process_token_identified save_to_blacklist_fields split: write_outcome.splits)
    qed
  qed
qed

lemma on_websocket_message_grows:
  "prefix (tweet_blacklist s) (tweet_blacklist (on_websocket_message py e s msg))
   \<and> prefix (blacklist_file s) (blacklist_file (on_websocket_message py e s msg))
   \<and> allowed_accounts (on_websocket_message py e s msg) = allowed_accounts s"
  using process_token_grows
  by (auto simp: on_websocket_message_def split: option.splits sum.splits)

lemma run_grows:
  "prefix (tweet_blacklist s) (tweet_blacklist (run py frames s))
   \<and> prefix (blacklist_file s) (blacklist_file (run py frames s))
   \<and> allowed_accounts (run py frames s) = allowed_accounts s"
proof (induction frames arbitrary: s)
  case Nil
  show ?case by simp
next
  case (Cons f frames)
  obtain e msg where f: "f = (e, msg)" by (cases f)
  show ?case
    using Cons.IH [of "on_websocket_message py e s msg"] on_websocket_message_grows [of s py e msg]
    unfolding f by (auto intro: prefix_order.trans)
qed

lemma identity_of_uri:
  "token_uri td = Inr uri \<Longrightarrow>
   identity py e td =
     (if twitter (get_token_links (net e) uri) = unavailable then None
      else (case (extract_account_name py (twitter (get_token_links (net e) uri)),
                  extract_tweet_id (twitter (get_token_links (net e) uri))) of
              (Some a, Some m) \<Rightarrow> if a = [] \<or> m = [] then None else Some (a, m)
            | _ \<Rightarrow> None))"
  by (simp add: identity_def Let_def)

lemma identity_net: "net e' = net e \<Longrightarrow> identity py e' td = identity py e td"
  by (simp add: identity_def split: sum.splits)

lemma accept_iff:
  assumes "token_uri td = Inr uri"
  shows "fst (process_token py e s td) = Accept a m \<longleftrightarrow>
         identity py e td = Some (a, m) \<and> m @ ''|'' @ a \<notin> set (tweet_blacklist s)
         \<and> a \<in> set (allowed_accounts s)"
proof (cases "twitter (get_token_links (net e) uri) = unavailable")
  case True
  with assms show ?thesis by (simp add: process_token_no_link identity_of_uri)
next
  case False
  show ?thesis
  proof (cases "identity py e td")
    case None
    with assms False show ?thesis by (simp add: process_token_unparsable)
  next
    case (Some p)
    then obtain a' m' where "identity py e td = Some (a', m')" by (cases p) auto
    with assms show ?thesis by (auto simp: process_token_identified)
  qed
qed

lemma sample_token_uri: "token_uri sample_frame = Inr sample_uri"
  by (simp add: token_uri_def sample_frame_def sample_uri_def bind_exn_def)

lemma sample_resolved: "twitter (get_token_links sample_net sample_uri) = sample_link"
  by (simp add: get_token_links_def get_token_links_try_def sample_net_def sample_uri_def
        sample_metadata_def nested_links_def direct_links_def bind_exn_def sample_link_def
        default_links_def)

lemma sample_account: "extract_account_name ascii_builtins sample_link = Some ''alice''"
  unfolding sample_link_def by code_simp

lemma sample_message_id: "extract_tweet_id sample_link = Some ''999''"
  unfolding sample_link_def by code_simp

lemma sample_available: "sample_link \<noteq> unavailable"
  by (simp add: sample_link_def unavailable_def)

lemma sample_identity: "net e = sample_net \<Longrightarrow> identity ascii_builtins e sample_frame = Some (''alice'', ''999'')"
  by (simp add: identity_of_uri [OF sample_token_uri] sample_resolved sample_account
        sample_message_id sample_available)

lemma sample_envs: "net sample_env = sample_net" "net failing_env = sample_net"
  "disk sample_env = Written" "disk failing_env = WriteError []"
  by (simp_all add: sample_env_def failing_env_def)

section \<open>Filter gate: order of the checks\<close>

text \<open>
  Claim C2. For every event (a payload \<open>process_token\<close> can read a URI from) the
  checks run in this order, the first that fails deciding: the social link is the
  sentinel: \<open>NoSocialLink\<close>; else the account or the message id is missing or empty:
  \<open>UnparsableLink\<close>; else the key \<open>message_id|account\<close> is in the ledger:
  \<open>AlreadyProcessed\<close>; else the account is not in the allow-list:
  \<open>AccountNotAllowed\<close>; else \<open>Accept(account, message_id)\<close>.
\<close>

theorem filter_gate_order:
  assumes "token_uri token_data = Inr uri"
    and "link = twitter (get_token_links (net e) uri)"
    and "account = extract_account_name py link"
    and "message_id = extract_tweet_id link"
  shows "(link = unavailable \<longrightarrow> fst (process_token py e s token_data) = Reject NoSocialLink)
   \<and> (link \<noteq> unavailable
        \<and> (account = None \<or> account = Some [] \<or> message_id = None \<or> message_id = Some [])
      \<longrightarrow> fst (process_token py e s token_data) = Reject UnparsableLink)
   \<and> (link \<noteq> unavailable \<and> account = Some a \<and> a \<noteq> [] \<and> message_id = Some m \<and> m \<noteq> []
        \<and> m @ ''|'' @ a \<in> set (tweet_blacklist s)
      \<longrightarrow> fst (process_token py e s token_data) = Reject AlreadyProcessed)
   \<and> (link \<noteq> unavailable \<and> account = Some a \<and> a \<noteq> [] \<and> message_id = Some m \<and> m \<noteq> []
        \<and> m @ ''|'' @ a \<notin> set (tweet_blacklist s) \<and> a \<notin> set (allowed_accounts s)
      \<longrightarrow> fst (process_token py e s token_data) = Reject AccountNotAllowed)
   \<and> (link \<noteq> unavailable \<and> account = Some a \<and> a \<noteq> [] \<and> message_id = Some m \<and> m \<noteq> []
        \<and> m @ ''|'' @ a \<notin> set (tweet_blacklist s) \<and> a \<in> set (allowed_accounts s)
      \<longrightarrow> fst (process_token py e s token_data) = Accept a m)"
proof (intro conjI impI)
  assume "link = unavailable"
  then show "fst (process_token py e s token_data) = Reject NoSocialLink"
    using assms(1,2) by (simp add: process_token_no_link)
next
  assume h: "link \<noteq> unavailable
        \<and> (account = None \<or> account = Some [] \<or> message_id = None \<or> message_id = Some [])"
  then have "identity py e token_data = None"
    using assms by (auto simp: identity_of_uri split: option.splits)
  then show "fst (process_token py e s token_data) = Reject UnparsableLink"
    using h assms(1,2) by (simp add: process_token_unparsable)
next
  assume h: "link \<noteq> unavailable \<and> account = Some a \<and> a \<noteq> [] \<and> message_id = Some m \<and> m \<noteq> []
        \<and> m @ ''|'' @ a \<in> set (tweet_blacklist s)"
  then have "identity py e token_data = Some (a, m)"
    using assms by (auto simp: identity_of_uri)
  then show "fst (process_token py e s token_data) = Reject AlreadyProcessed"
    using h assms(1) by (simp add: process_token_identified)
next
  assume h: "link \<noteq> unavailable \<and> account = Some a \<and> a \<noteq> [] \<and> message_id = Some m \<and> m \<noteq> []
        \<and> m @ ''|'' @ a \<notin> set (tweet_blacklist s) \<and> a \<notin> set (allowed_accounts s)"
  then have "identity py e token_data = Some (a, m)"
    using assms by (auto simp: identity_of_uri)
  then show "fst (process_token py e s token_data) = Reject AccountNotAllowed"
    using h assms(1) by (simp add: process_token_identified)
next
  assume h: "link \<noteq> unavailable \<and> account = Some a \<and> a \<noteq> [] \<and> message_id = Some m \<and> m \<noteq> []
        \<and> m @ ''|'' @ a \<notin> set (tweet_blacklist s) \<and> a \<in> set (allowed_accounts s)"
  then have "identity py e token_data = Some (a, m)"
    using assms by (auto simp: identity_of_uri)
  then show "fst (process_token py e s token_data) = Accept a m"
    using h assms(1) by (simp add: process_token_identified)
qed

lemma profile_link_has_no_id: "extract_tweet_id (JStr ''https://x.com/alice'') = None"
  by code_simp

text \<open>
  One event for each of the five outcomes.
\<close>

theorem filter_gate_order_witness:
  "fst (process_token ascii_builtins \<lparr>net = (\<lambda>u. TimedOut), disk = Written\<rparr> sample_bot sample_frame)
     = Reject NoSocialLink
   \<and> fst (process_token ascii_builtins
        \<lparr>net = (\<lambda>u. Response 200 (JsonBody (JObj [(''twitter'', JStr ''https://x.com/alice'')]))),
         disk = Written\<rparr> sample_bot sample_frame)
     = Reject UnparsableLink
   \<and> fst (process_token ascii_builtins sample_env (sample_bot\<lparr>tweet_blacklist := [''999|alice'']\<rparr>) sample_frame)
     = Reject AlreadyProcessed
   \<and> fst (process_token ascii_builtins sample_env (sample_bot\<lparr>allowed_accounts := [''bob'']\<rparr>) sample_frame)
     = Reject AccountNotAllowed
   \<and> fst (process_token ascii_builtins sample_env sample_bot sample_frame) = Accept ''alice'' ''999''"
proof (intro conjI)
  have "twitter (get_token_links (\<lambda>u. TimedOut) sample_uri) = unavailable"
    by (simp add: get_token_links_def get_token_links_try_def sample_uri_def default_links_def)
  then show "fst (process_token ascii_builtins \<lparr>net = (\<lambda>u. TimedOut), disk = Written\<rparr> sample_bot sample_frame)
     = Reject NoSocialLink"
    using filter_gate_order [OF sample_token_uri refl refl refl,
        where e = "\<lparr>net = (\<lambda>u. TimedOut), disk = Written\<rparr>" and s = sample_bot
          and py = ascii_builtins]
    by simp
next
  have l: "twitter (get_token_links
             (\<lambda>u. Response 200 (JsonBody (JObj [(''twitter'', JStr ''https://x.com/alice'')])))
             sample_uri) = JStr ''https://x.com/alice''"
    by (simp add: get_token_links_def get_token_links_try_def sample_uri_def default_links_def
          nested_links_def direct_links_def bind_exn_def)
  show "fst (process_token ascii_builtins
        \<lparr>net = (\<lambda>u. Response 200 (JsonBody (JObj [(''twitter'', JStr ''https://x.com/alice'')]))),
         disk = Written\<rparr> sample_bot sample_frame)
     = Reject UnparsableLink"
    using filter_gate_order [OF sample_token_uri refl refl refl,
        where e = "\<lparr>net = (\<lambda>u. Response 200 (JsonBody (JObj [(''twitter'', JStr ''https://x.com/alice'')]))),
         disk = Written\<rparr>" and s = sample_bot and py = ascii_builtins]
    by (simp add: l profile_link_has_no_id unavailable_def)
next
  show "fst (process_token ascii_builtins sample_env (sample_bot\<lparr>tweet_blacklist := [''999|alice'']\<rparr>) sample_frame)
     = Reject AlreadyProcessed"
    using filter_gate_order [OF sample_token_uri refl refl refl,
        where e = sample_env and s = "sample_bot\<lparr>tweet_blacklist := [''999|alice'']\<rparr>"
          and a = "''alice''" and m = "''999''" and py = ascii_builtins]
    by (simp add: sample_envs sample_resolved sample_account sample_message_id sample_available)
next
  show "fst (process_token ascii_builtins sample_env (sample_bot\<lparr>allowed_accounts := [''bob'']\<rparr>) sample_frame)
     = Reject AccountNotAllowed"
    using filter_gate_order [OF sample_token_uri refl refl refl,
        where e = sample_env and s = "sample_bot\<lparr>allowed_accounts := [''bob'']\<rparr>"
          and a = "''alice''" and m = "''999''" and py = ascii_builtins]
    by (simp add: sample_envs sample_resolved sample_account sample_message_id sample_available
          sample_bot_def)
next
  show "fst (process_token ascii_builtins sample_env sample_bot sample_frame) = Accept ''alice'' ''999''"
    using filter_gate_order [OF sample_token_uri refl refl refl,
        where e = sample_env and s = sample_bot and a = "''alice''" and m = "''999''" and py = ascii_builtins]
    by (simp add: sample_envs sample_resolved sample_account sample_message_id sample_available
          sample_bot_def)
qed

text \<open>
  Claim C3, as amended. For any event whose identity is extracted and whose account is
  not in the allow-list, the decision is \<open>Reject(AccountNotAllowed)\<close> when its key is
  not in the ledger and \<open>Reject(AlreadyProcessed)\<close> when it is: the ledger is
  consulted first. Either way the event is rejected.
\<close>

theorem allow_list_gate:
  "identity py e token_data = Some (a, m) \<and> a \<notin> set (allowed_accounts s)
   \<longrightarrow> fst (process_token py e s token_data)
       = (if m @ ''|'' @ a \<in> set (tweet_blacklist s)
          then Reject AlreadyProcessed else Reject AccountNotAllowed)"
proof
  assume h: "identity py e token_data = Some (a, m) \<and> a \<notin> set (allowed_accounts s)"
  then obtain uri where "token_uri token_data = Inr uri"
    by (auto elim: identity_link)
  with h show "fst (process_token py e s token_data)
       = (if m @ ''|'' @ a \<in> set (tweet_blacklist s)
          then Reject AlreadyProcessed else Reject AccountNotAllowed)"
    by (simp add: process_token_identified)
qed

text \<open>
  An account outside the allow-list, with an empty ledger and with its key recorded.
\<close>

theorem allow_list_gate_witness:
  "fst (process_token ascii_builtins sample_env (sample_bot\<lparr>allowed_accounts := [''bob'']\<rparr>) sample_frame)
     = Reject AccountNotAllowed
   \<and> fst (process_token ascii_builtins sample_env
        (sample_bot\<lparr>tweet_blacklist := [''999|alice''], allowed_accounts := [''bob'']\<rparr>) sample_frame)
     = Reject AlreadyProcessed"
  using allow_list_gate [where e = sample_env and token_data = sample_frame
      and a = "''alice''" and m = "''999''" and py = ascii_builtins
      and s = "sample_bot\<lparr>allowed_accounts := [''bob'']\<rparr>"]
    allow_list_gate [where e = sample_env and token_data = sample_frame
      and a = "''alice''" and m = "''999''" and py = ascii_builtins
      and s = "sample_bot\<lparr>tweet_blacklist := [''999|alice''], allowed_accounts := [''bob'']\<rparr>"]
  by (simp add: sample_identity sample_envs sample_bot_def)

text \<open>
  The account \<open>alice\<close> is not in the allow-list and the key \<open>999|alice\<close> is in the
  ledger: the decision is \<open>AlreadyProcessed\<close>, not \<open>AccountNotAllowed\<close>.
\<close>

theorem allow_list_gate_counterexample:
  "extract_account_name ascii_builtins (twitter (get_token_links (net sample_env) sample_uri)) = Some ''alice''
   \<and> ''alice'' \<notin> set (allowed_accounts
        (sample_bot\<lparr>tweet_blacklist := [''999|alice''], allowed_accounts := [''bob'']\<rparr>))
   \<and> fst (process_token ascii_builtins sample_env
        (sample_bot\<lparr>tweet_blacklist := [''999|alice''], allowed_accounts := [''bob'']\<rparr>) sample_frame)
     = Reject AlreadyProcessed
   \<and> Reject AlreadyProcessed \<noteq> Reject AccountNotAllowed"
  by (simp add: process_token_identified [OF sample_token_uri sample_identity]
        sample_envs sample_resolved sample_account)

section \<open>Filter gate: what an acceptance does\<close>

lemma accepted_state:
  assumes "token_uri td = Inr uri" and "fst (process_token py e s td) = Accept a m"
  shows "snd (process_token py e s td) =
         (save_to_blacklist (disk e) m a (s\<lparr>trace := trace s @ [HttpGet uri]\<rparr>))
           \<lparr>trace := trace (save_to_blacklist (disk e) m a (s\<lparr>trace := trace s @ [HttpGet uri]\<rparr>))
              @ [SendTweet (twitter (get_token_links (net e) uri)) a]\<rparr>"
proof -
  from assms(2) have "identity py e td = Some (a, m)" "m @ ''|'' @ a \<notin> set (tweet_blacklist s)"
    "a \<in> set (allowed_accounts s)"
    by (simp_all add: accept_iff [OF assms(1)])
  with assms(1) show ?thesis by (simp add: process_token_identified)
qed



lemma sample_accepted: "net e = sample_net \<Longrightarrow>
  fst (process_token ascii_builtins e sample_bot sample_frame) = Accept ''alice'' ''999''"
  by (simp add: accept_iff [OF sample_token_uri] sample_identity sample_bot_def)

lemma sample_bot_fields:
  "tweet_blacklist sample_bot = []" "allowed_accounts sample_bot = [''alice'']"
  "blacklist_file sample_bot = []" "trace sample_bot = []"
  by (simp_all add: sample_bot_def)



lemma two_line_identity:
  "identity ascii_builtins two_line_env sample_frame = Some (''alice'', ''9'' @ [CHR 0x0A] @ ''9'')"
proof -
  have l: "twitter (get_token_links (net two_line_env) sample_uri) = two_line_link"
    by (simp add: two_line_env_def get_token_links_def get_token_links_try_def sample_uri_def
          nested_links_def direct_links_def bind_exn_def default_links_def)
  have a: "extract_account_name ascii_builtins two_line_link = Some ''alice''"
    unfolding two_line_link_def by code_simp
  have m: "extract_tweet_id two_line_link = Some (''9'' @ [CHR 0x0A] @ ''9'')"
    unfolding two_line_link_def by code_simp
  have n: "two_line_link \<noteq> unavailable"
    by (simp add: two_line_link_def unavailable_def)
  show ?thesis
    by (simp add: identity_of_uri [OF sample_token_uri] l a m n)
qed

text \<open>
  A message id that holds a line feed: the event is accepted and its one append adds
  two lines to the ledger file.
\<close>

lemma two_line_acceptance:
  "fst (process_token ascii_builtins two_line_env sample_bot sample_frame)
     = Accept ''alice'' (''9'' @ [CHR 0x0A] @ ''9'')
   \<and> line_count (blacklist_file sample_bot) = 0
   \<and> line_count (blacklist_file (snd (process_token ascii_builtins two_line_env sample_bot
        sample_frame))) = 2"
proof -
  have d: "disk two_line_env = Written" by (simp add: two_line_env_def)
  show ?thesis
    by (simp add: process_token_identified [OF sample_token_uri two_line_identity]
          sample_bot_fields save_to_blacklist_fields line_count_def d)
qed

text \<open>
  Claim C10. When the append to the ledger file raises, \<open>save_to_blacklist\<close> leaves
  the in-memory ledger as it was, \<open>process_token\<close> still hands the notification to
  the sink, and a later frame that resolves to the same link is accepted and notified
  again.
\<close>

theorem ledger_commit_gap:
  "token_uri token_data = Inr uri \<and> fst (process_token py e s token_data) = Accept a m
     \<and> disk e = WriteError part
   \<longrightarrow> tweet_blacklist (save_to_blacklist (disk e) m a s) = tweet_blacklist s
       \<and> tweet_blacklist (snd (process_token py e s token_data)) = tweet_blacklist s
       \<and> trace (snd (process_token py e s token_data))
           = trace s @ [HttpGet uri, SendTweet (twitter (get_token_links (net e) uri)) a]
       \<and> (\<forall>e'. net e' = net e
            \<longrightarrow> fst (process_token py e' (snd (process_token py e s token_data)) token_data) = Accept a m
                \<and> last (trace (snd (process_token py e' (snd (process_token py e s token_data)) token_data)))
                    = SendTweet (twitter (get_token_links (net e) uri)) a)"
proof (intro impI conjI allI)
  assume h: "token_uri token_data = Inr uri \<and> fst (process_token py e s token_data) = Accept a m
     \<and> disk e = WriteError part"
  then have u: "token_uri token_data = Inr uri" and d: "disk e = WriteError part" by simp_all
  from h have acc: "identity py e token_data = Some (a, m)"
      "m @ ''|'' @ a \<notin> set (tweet_blacklist s)" "a \<in> set (allowed_accounts s)"
    by (simp_all add: accept_iff [OF u])
  let ?s' = "snd (process_token py e s token_data)"
  have st: "?s' =
         (save_to_blacklist (disk e) m a (s\<lparr>trace := trace s @ [HttpGet uri]\<rparr>))
           \<lparr>trace := trace (save_to_blacklist (disk e) m a (s\<lparr>trace := trace s @ [HttpGet uri]\<rparr>))
              @ [SendTweet (twitter (get_token_links (net e) uri)) a]\<rparr>"
    using h by (simp add: accepted_state)
  show "tweet_blacklist (save_to_blacklist (disk e) m a s) = tweet_blacklist s"
    by (simp add: save_to_blacklist_fields d)
  show bl: "tweet_blacklist ?s' = tweet_blacklist s"
    unfolding st by (simp add: save_to_blacklist_fields d)
  show "trace ?s' = trace s @ [HttpGet uri, SendTweet (twitter (get_token_links (net e) uri)) a]"
    unfolding st by (simp add: save_to_blacklist_fields d)
  have al: "allowed_accounts ?s' = allowed_accounts s"
    unfolding st by (simp add: save_to_blacklist_fields)
  fix e' :: env
  assume n: "net e' = net e"
  have "identity py e' token_data = Some (a, m)"
    using acc(1) identity_net [OF n, of py token_data] by simp
  then show again: "fst (process_token py e' ?s' token_data) = Accept a m"
    using acc(2,3) bl al by (simp add: accept_iff [OF u])
  show "last (trace (snd (process_token py e' ?s' token_data)))
          = SendTweet (twitter (get_token_links (net e) uri)) a"
    using accepted_state [OF u again] n by simp
qed

text \<open>
  The scenario's frame, first with a ledger file that cannot be opened, then again.
\<close>

theorem ledger_commit_gap_witness:
  "tweet_blacklist (snd (process_token ascii_builtins failing_env sample_bot sample_frame)) = tweet_blacklist sample_bot
   \<and> trace (snd (process_token ascii_builtins failing_env sample_bot sample_frame))
       = trace sample_bot @ [HttpGet sample_uri, SendTweet sample_link ''alice'']
   \<and> fst (process_token ascii_builtins sample_env (snd (process_token ascii_builtins failing_env sample_bot sample_frame))
        sample_frame) = Accept ''alice'' ''999''
   \<and> last (trace (snd (process_token ascii_builtins sample_env
        (snd (process_token ascii_builtins failing_env sample_bot sample_frame)) sample_frame)))
       = SendTweet sample_link ''alice''"
  using ledger_commit_gap [where token_data = sample_frame and uri = sample_uri
      and py = ascii_builtins
      and e = failing_env and s = sample_bot and a = "''alice''" and m = "''999''" and part = "[]"]
  by (simp add: sample_token_uri sample_accepted sample_envs sample_resolved sample_bot_fields)

section \<open>Filter gate: the ledger over time\<close>

lemma recorded_key_rejected:
  assumes "token_uri td = Inr uri" and "identity py e td = Some (a, m)"
    and "m @ ''|'' @ a \<in> set (tweet_blacklist s)"
  shows "process_token py e (run py frames s) td =
         (Reject AlreadyProcessed, (run py frames s)\<lparr>trace := trace (run py frames s) @ [HttpGet uri]\<rparr>)"
proof -
  have "prefix (tweet_blacklist s) (tweet_blacklist (run py frames s))"
    using run_grows [of s py frames] by simp
  then have "set (tweet_blacklist s) \<subseteq> set (tweet_blacklist (run py frames s))"
    by (rule set_mono_prefix)
  with assms(3) have "m @ ''|'' @ a \<in> set (tweet_blacklist (run py frames s))" by blast
  with assms(1,2) show ?thesis by (simp add: process_token_identified)
qed

lemma dedup_key_identity:
  "dedup_key py e td = Some key \<Longrightarrow> \<exists>a m. identity py e td = Some (a, m) \<and> key = m @ ''|'' @ a"
  by (auto simp: dedup_key_def)

text \<open>
  Claim C1, as amended. The in-memory ledger only grows: after any run of frames the
  old ledger is a prefix of the new one. A frame whose computed key is in the ledger is
  rejected as already processed, now and after any further frames, and the only thing
  it leaves is the record of its metadata fetch: no ledger append, no sink call.
  Replaying a frame that was accepted and whose ledger append succeeded is such a case.
\<close>

theorem dedup_idempotence:
  "prefix (tweet_blacklist s) (tweet_blacklist (run py frames s))
   \<and> (token_uri token_data = Inr uri \<and> dedup_key py e token_data = Some key
        \<and> key \<in> set (tweet_blacklist s)
      \<longrightarrow> process_token py e (run py frames s) token_data
          = (Reject AlreadyProcessed,
             (run py frames s)\<lparr>trace := trace (run py frames s) @ [HttpGet uri]\<rparr>))
   \<and> (token_uri token_data = Inr uri \<and> fst (process_token py e0 s token_data) = Accept a m
        \<and> disk e0 = Written \<and> net e = net e0
      \<longrightarrow> process_token py e (run py frames (snd (process_token py e0 s token_data))) token_data
          = (Reject AlreadyProcessed,
             (run py frames (snd (process_token py e0 s token_data)))
               \<lparr>trace := trace (run py frames (snd (process_token py e0 s token_data))) @ [HttpGet uri]\<rparr>))"
proof (intro conjI impI)
  show "prefix (tweet_blacklist s) (tweet_blacklist (run py frames s))"
    using run_grows [of s py frames] by simp
next
  assume h: "token_uri token_data = Inr uri \<and> dedup_key py e token_data = Some key
        \<and> key \<in> set (tweet_blacklist s)"
  then obtain a' m' where "identity py e token_data = Some (a', m')" "key = m' @ ''|'' @ a'"
    using dedup_key_identity by blast
  with h show "process_token py e (run py frames s) token_data
          = (Reject AlreadyProcessed,
             (run py frames s)\<lparr>trace := trace (run py frames s) @ [HttpGet uri]\<rparr>)"
    by (simp add: recorded_key_rejected)
next
  assume h: "token_uri token_data = Inr uri \<and> fst (process_token py e0 s token_data) = Accept a m
        \<and> disk e0 = Written \<and> net e = net e0"
  then have u: "token_uri token_data = Inr uri" and n: "net e = net e0"
    and d: "disk e0 = Written" and acc: "fst (process_token py e0 s token_data) = Accept a m"
    by simp_all
  have "identity py e0 token_data = Some (a, m)"
    using acc by (simp add: accept_iff [OF u])
  then have i: "identity py e token_data = Some (a, m)"
    using identity_net [OF n, of py token_data] by simp
  have "tweet_blacklist (snd (process_token py e0 s token_data)) = tweet_blacklist s @ [m @ ''|'' @ a]"
    unfolding accepted_state [OF u acc] by (simp add: save_to_blacklist_fields d)
  then have "m @ ''|'' @ a \<in> set (tweet_blacklist (snd (process_token py e0 s token_data)))"
    by simp
  with u i show "process_token py e (run py frames (snd (process_token py e0 s token_data))) token_data
          = (Reject AlreadyProcessed,
             (run py frames (snd (process_token py e0 s token_data)))
               \<lparr>trace := trace (run py frames (snd (process_token py e0 s token_data))) @ [HttpGet uri]\<rparr>)"
    by (rule recorded_key_rejected)
qed

lemma sample_dedup_key: "net e = sample_net \<Longrightarrow> dedup_key ascii_builtins e sample_frame = Some ''999|alice''"
  by (simp add: dedup_key_def sample_identity)

text \<open>
  A ledger that already holds \<open>999|alice\<close>, and the scenario's frame replayed after
  its acceptance.
\<close>

theorem dedup_idempotence_witness:
  "process_token ascii_builtins sample_env (sample_bot\<lparr>tweet_blacklist := [''999|alice'']\<rparr>) sample_frame
     = (Reject AlreadyProcessed,
        sample_bot\<lparr>tweet_blacklist := [''999|alice''], trace := [HttpGet sample_uri]\<rparr>)
   \<and> fst (process_token ascii_builtins sample_env
        (run ascii_builtins [(sample_env, None)] (snd (process_token ascii_builtins sample_env sample_bot sample_frame)))
        sample_frame) = Reject AlreadyProcessed
   \<and> tweet_blacklist (snd (process_token ascii_builtins sample_env
        (run ascii_builtins [(sample_env, None)] (snd (process_token ascii_builtins sample_env sample_bot sample_frame)))
        sample_frame)) = [''999|alice'']
   \<and> trace (snd (process_token ascii_builtins sample_env
        (run ascii_builtins [(sample_env, None)] (snd (process_token ascii_builtins sample_env sample_bot sample_frame)))
        sample_frame))
     = [HttpGet sample_uri, FileAppend (''999|alice'' @ [CHR 0x0A]), LedgerAppend ''999|alice'',
        SendTweet sample_link ''alice'', HttpGet sample_uri]"
proof -
  have st: "snd (process_token ascii_builtins sample_env sample_bot sample_frame)
        = sample_bot\<lparr>blacklist_file := ''999|alice'' @ [CHR 0x0A],
                     tweet_blacklist := [''999|alice''],
                     trace := [HttpGet sample_uri, FileAppend (''999|alice'' @ [CHR 0x0A]),
                               LedgerAppend ''999|alice'', SendTweet sample_link ''alice'']\<rparr>"
    using accepted_state [OF sample_token_uri sample_accepted, of sample_env]
    by (simp add: sample_envs sample_resolved save_to_blacklist_def Let_def sample_bot_def)
  have "process_token ascii_builtins sample_env (run ascii_builtins [] (sample_bot\<lparr>tweet_blacklist := [''999|alice'']\<rparr>)) sample_frame
     = (Reject AlreadyProcessed,
        (run ascii_builtins [] (sample_bot\<lparr>tweet_blacklist := [''999|alice'']\<rparr>))
          \<lparr>trace := trace (run ascii_builtins [] (sample_bot\<lparr>tweet_blacklist := [''999|alice'']\<rparr>)) @ [HttpGet sample_uri]\<rparr>)"
    using dedup_idempotence [where py = ascii_builtins
        and s = "sample_bot\<lparr>tweet_blacklist := [''999|alice'']\<rparr>"
        and frames = "[]" and token_data = sample_frame and uri = sample_uri and e = sample_env
        and key = "''999|alice''"]
    by (simp add: sample_token_uri sample_dedup_key sample_envs)
  moreover have "process_token ascii_builtins sample_env
        (run ascii_builtins [(sample_env, None)] (snd (process_token ascii_builtins sample_env sample_bot sample_frame)))
        sample_frame
      = (Reject AlreadyProcessed,
         (run ascii_builtins [(sample_env, None)] (snd (process_token ascii_builtins sample_env sample_bot sample_frame)))
           \<lparr>trace := trace (run ascii_builtins [(sample_env, None)]
                (snd (process_token ascii_builtins sample_env sample_bot sample_frame))) @ [HttpGet sample_uri]\<rparr>)"
    using dedup_idempotence [where py = ascii_builtins
        and s = sample_bot and frames = "[(sample_env, None)]"
        and token_data = sample_frame and uri = sample_uri and e = sample_env and ?e0.0 = sample_env
        and a = "''alice''" and m = "''999''"]
    by (simp add: sample_token_uri sample_accepted sample_envs)
  ultimately show ?thesis
    by (simp add: st on_websocket_message_def sample_bot_fields)
qed

text \<open>
  The scenario's frame accepted while the ledger file cannot be opened, then replayed:
  it is accepted again and the sink is invoked a second time.
\<close>

theorem dedup_idempotence_counterexample:
  "fst (process_token ascii_builtins failing_env sample_bot sample_frame) = Accept ''alice'' ''999''
   \<and> fst (process_token ascii_builtins failing_env (snd (process_token ascii_builtins failing_env sample_bot sample_frame))
        sample_frame) = Accept ''alice'' ''999''
   \<and> trace (snd (process_token ascii_builtins failing_env (snd (process_token ascii_builtins failing_env sample_bot sample_frame))
        sample_frame))
     = [HttpGet sample_uri, SendTweet sample_link ''alice'',
        HttpGet sample_uri, SendTweet sample_link ''alice'']"
proof -
  have st: "snd (process_token ascii_builtins failing_env sample_bot sample_frame)
        = sample_bot\<lparr>trace := [HttpGet sample_uri, SendTweet sample_link ''alice'']\<rparr>"
    using accepted_state [OF sample_token_uri sample_accepted, of failing_env]
    by (simp add: sample_envs sample_resolved save_to_blacklist_def Let_def sample_bot_def)
  have again: "fst (process_token ascii_builtins failing_env
      (sample_bot\<lparr>trace := [HttpGet sample_uri, SendTweet sample_link ''alice'']\<rparr>) sample_frame)
      = Accept ''alice'' ''999''"
    by (simp add: accept_iff [OF sample_token_uri] sample_identity sample_envs sample_bot_def)
  show ?thesis
    unfolding st
    by (simp add: sample_accepted again accepted_state [OF sample_token_uri again] sample_envs
          sample_resolved save_to_blacklist_def Let_def)
qed

section \<open>Event classifier: the four shapes\<close>

lemma process_token_uri_only:
  "token_uri td = token_uri td' \<Longrightarrow> process_token py e s td = process_token py e s td'"
  by (simp add: process_token_def)

lemma event_uri: "token_uri (token_creation_event u) = Inr u"
  by (simp add: token_creation_event_def token_uri_def bind_exn_def)

lemma handled_as_event:
  assumes "classify data = Inr (Some p)" and "token_uri p = Inr u"
  shows "on_websocket_message py e s (Some data)
         = snd (process_token py e s (token_creation_event u))"
proof -
  have "process_token py e s p = process_token py e s (token_creation_event u)"
    by (rule process_token_uri_only) (simp add: assms(2) event_uri)
  then show ?thesis
    using assms(1) by (simp add: on_websocket_message_def)
qed

text \<open>
  Claim C5, as amended. For every metadata URI \<open>u\<close>: a frame with
  \<open>method = 'newToken'\<close> whose \<open>params\<close> carry \<open>u\<close>; a frame with
  \<open>type = 'newToken'\<close> that carries \<open>u\<close>; a frame with \<open>event = 'token_created'\<close>
  whose \<open>data\<close> carry \<open>u\<close>; and a frame with a \<open>mint\<close> field and
  \<open>txType = 'create'\<close> that carries \<open>u\<close>: each of them, when no shape earlier in
  this order matches the frame as well, is handed to \<open>process_token\<close> with metadata
  URI \<open>u\<close>, and \<open>on_websocket_message\<close> leaves the bot exactly as processing the
  normalized event with that URI does. A frame of none of the four shapes, an object or
  not, is dropped: \<open>process_token\<close> is not called and the bot is left as it was.
\<close>

theorem classifier_coverage:
  "(is_method_frame data \<and> field data ''params'' = Some p \<and> carries p u
      \<longrightarrow> classify data = Inr (Some p) \<and> token_uri p = Inr u
          \<and> on_websocket_message py e s (Some data)
              = snd (process_token py e s (token_creation_event u)))
   \<and> (\<not> is_method_frame data \<and> is_type_frame data \<and> carries data u
      \<longrightarrow> classify data = Inr (Some data) \<and> token_uri data = Inr u
          \<and> on_websocket_message py e s (Some data)
              = snd (process_token py e s (token_creation_event u)))
   \<and> (\<not> is_method_frame data \<and> \<not> is_type_frame data \<and> is_event_frame data
        \<and> field data ''data'' = Some p \<and> carries p u
      \<longrightarrow> classify data = Inr (Some p) \<and> token_uri p = Inr u
          \<and> on_websocket_message py e s (Some data)
              = snd (process_token py e s (token_creation_event u)))
   \<and> (\<not> is_method_frame data \<and> \<not> is_type_frame data \<and> \<not> is_event_frame data
        \<and> is_flat_frame data \<and> carries data u
      \<longrightarrow> classify data = Inr (Some data) \<and> token_uri data = Inr u
          \<and> on_websocket_message py e s (Some data)
              = snd (process_token py e s (token_creation_event u)))
   \<and> (\<not> is_method_frame data \<and> \<not> is_type_frame data \<and> \<not> is_event_frame data
        \<and> \<not> is_flat_frame data
      \<longrightarrow> classify data \<noteq> Inr (Some token_data)
          \<and> on_websocket_message py e s (Some data) = s)"
proof (cases "\<exists>kvs. data = JObj kvs")
  case True
  then obtain kvs where d: "data = JObj kvs" by blast
  have m: "is_method_frame data \<and> field data ''params'' = Some p \<and> carries p u
      \<longrightarrow> classify data = Inr (Some p) \<and> token_uri p = Inr u"
    unfolding d by (simp add: classify_object is_method_frame_def token_uri_carries)
  have t: "\<not> is_method_frame data \<and> is_type_frame data \<and> carries data u
      \<longrightarrow> classify data = Inr (Some data) \<and> token_uri data = Inr u"
    using token_uri_carries [of data u] unfolding d
    by (simp add: classify_object is_method_frame_def is_type_frame_def)
  have ev: "\<not> is_method_frame data \<and> \<not> is_type_frame data \<and> is_event_frame data
        \<and> field data ''data'' = Some p \<and> carries p u
      \<longrightarrow> classify data = Inr (Some p) \<and> token_uri p = Inr u"
    unfolding d
    by (simp add: classify_object is_method_frame_def is_type_frame_def is_event_frame_def
          token_uri_carries)
  have fl: "\<not> is_method_frame data \<and> \<not> is_type_frame data \<and> \<not> is_event_frame data
        \<and> is_flat_frame data \<and> carries data u
      \<longrightarrow> classify data = Inr (Some data) \<and> token_uri data = Inr u"
    using token_uri_carries [of data u] unfolding d
    by (auto simp: classify_object is_method_frame_def is_type_frame_def is_event_frame_def
          is_flat_frame_def)
  have no: "\<not> is_method_frame data \<and> \<not> is_type_frame data \<and> \<not> is_event_frame data
        \<and> \<not> is_flat_frame data
      \<longrightarrow> classify data \<noteq> Inr (Some token_data)
          \<and> on_websocket_message py e s (Some data) = s"
    unfolding d
    by (auto simp: classify_object on_websocket_message_def is_method_frame_def
          is_type_frame_def is_event_frame_def is_flat_frame_def)
  show ?thesis
    using m t ev fl no handled_as_event [of data p u py e s]
      handled_as_event [of data data u py e s]
    by blast
next
  case False
  then have no: "\<forall>kvs. data \<noteq> JObj kvs" by simp
  have "classify data \<noteq> Inr (Some t)" for t using no by (rule classify_other)
  then have dropped: "classify data \<noteq> Inr (Some token_data)
          \<and> on_websocket_message py e s (Some data) = s"
    by (auto simp: on_websocket_message_def split: sum.splits option.splits)
  have nofield: "field data k = None" for k
    using no by (cases data) simp_all
  show ?thesis
    using dropped
    by (simp add: is_method_frame_def is_type_frame_def is_event_frame_def
        is_flat_frame_def carries_def nofield)
qed

lemma sample_event_state:
  "snd (process_token ascii_builtins sample_env sample_bot (token_creation_event sample_uri))
     = sample_bot\<lparr>blacklist_file := ''999|alice'' @ [CHR 0x0A],
                  tweet_blacklist := [''999|alice''],
                  trace := [HttpGet sample_uri, FileAppend (''999|alice'' @ [CHR 0x0A]),
                            LedgerAppend ''999|alice'', SendTweet sample_link ''alice'']\<rparr>"
proof -
  have "process_token ascii_builtins sample_env sample_bot (token_creation_event sample_uri)
        = process_token ascii_builtins sample_env sample_bot sample_frame"
    by (rule process_token_uri_only) (simp add: event_uri sample_token_uri)
  then show ?thesis
    using accepted_state [OF sample_token_uri sample_accepted, of sample_env]
    by (simp add: sample_envs sample_resolved save_to_blacklist_def Let_def sample_bot_def)
qed

text \<open>
  One frame of each shape carrying the same URI, all ending in the same state (one
  ledger line, one notification), and a frame of no shape, which changes nothing.
\<close>

theorem classifier_coverage_witness:
  "on_websocket_message ascii_builtins sample_env sample_bot
       (Some (JObj [(''method'', JStr ''newToken''), (''params'', JObj [(''uri'', sample_uri)])]))
     = sample_bot\<lparr>blacklist_file := ''999|alice'' @ [CHR 0x0A],
                  tweet_blacklist := [''999|alice''],
                  trace := [HttpGet sample_uri, FileAppend (''999|alice'' @ [CHR 0x0A]),
                            LedgerAppend ''999|alice'', SendTweet sample_link ''alice'']\<rparr>
   \<and> on_websocket_message ascii_builtins sample_env sample_bot
       (Some (JObj [(''type'', JStr ''newToken''), (''uri'', sample_uri)]))
     = sample_bot\<lparr>blacklist_file := ''999|alice'' @ [CHR 0x0A],
                  tweet_blacklist := [''999|alice''],
                  trace := [HttpGet sample_uri, FileAppend (''999|alice'' @ [CHR 0x0A]),
                            LedgerAppend ''999|alice'', SendTweet sample_link ''alice'']\<rparr>
   \<and> on_websocket_message ascii_builtins sample_env sample_bot
       (Some (JObj [(''event'', JStr ''token_created''),
                    (''data'', JObj [(''metadataUri'', sample_uri)])]))
     = sample_bot\<lparr>blacklist_file := ''999|alice'' @ [CHR 0x0A],
                  tweet_blacklist := [''999|alice''],
                  trace := [HttpGet sample_uri, FileAppend (''999|alice'' @ [CHR 0x0A]),
                            LedgerAppend ''999|alice'', SendTweet sample_link ''alice'']\<rparr>
   \<and> on_websocket_message ascii_builtins sample_env sample_bot
       (Some (JObj [(''mint'', JStr ''abc''), (''txType'', JStr ''create''), (''uri'', sample_uri)]))
     = sample_bot\<lparr>blacklist_file := ''999|alice'' @ [CHR 0x0A],
                  tweet_blacklist := [''999|alice''],
                  trace := [HttpGet sample_uri, FileAppend (''999|alice'' @ [CHR 0x0A]),
                            LedgerAppend ''999|alice'', SendTweet sample_link ''alice'']\<rparr>
   \<and> on_websocket_message ascii_builtins sample_env sample_bot
       (Some (JObj [(''method'', JStr ''ping'')])) = sample_bot"
  using
    classifier_coverage [where py = ascii_builtins and e = sample_env and s = sample_bot
      and u = sample_uri and p = "JObj [(''uri'', sample_uri)]"
      and data = "JObj [(''method'', JStr ''newToken''), (''params'', JObj [(''uri'', sample_uri)])]"]
    classifier_coverage [where py = ascii_builtins and e = sample_env and s = sample_bot
      and u = sample_uri
      and data = "JObj [(''type'', JStr ''newToken''), (''uri'', sample_uri)]"]
    classifier_coverage [where py = ascii_builtins and e = sample_env and s = sample_bot
      and u = sample_uri and p = "JObj [(''metadataUri'', sample_uri)]"
      and data = "JObj [(''event'', JStr ''token_created''),
                    (''data'', JObj [(''metadataUri'', sample_uri)])]"]
    classifier_coverage [where py = ascii_builtins and e = sample_env and s = sample_bot
      and u = sample_uri
      and data = "JObj [(''mint'', JStr ''abc''), (''txType'', JStr ''create''), (''uri'', sample_uri)]"]
    classifier_coverage [where py = ascii_builtins and e = sample_env and s = sample_bot
      and data = "JObj [(''method'', JStr ''ping'')]"]
  by (simp add: is_method_frame_def is_type_frame_def is_event_frame_def is_flat_frame_def
        carries_def sample_event_state)

text \<open>
  A type-tagged frame carrying a URI that is also tagged \<open>method = 'newToken'\<close> and
  has no \<open>params\<close>: the first branch is taken, \<open>data['params']\<close> raises, and the
  frame is dropped, where processing the event would have changed the bot.
\<close>

theorem classifier_coverage_counterexample:
  "is_type_frame double_tagged_frame
   \<and> carries double_tagged_frame sample_uri
   \<and> classify double_tagged_frame = Inl KeyError
   \<and> on_websocket_message ascii_builtins sample_env sample_bot (Some double_tagged_frame)
       = sample_bot
   \<and> snd (process_token ascii_builtins sample_env sample_bot (token_creation_event sample_uri))
       \<noteq> sample_bot"
proof -
  have c: "classify double_tagged_frame = Inl KeyError"
    by (simp add: double_tagged_frame_def classify_object)
  have "trace (snd (process_token ascii_builtins sample_env sample_bot
          (token_creation_event sample_uri))) \<noteq> trace sample_bot"
    by (simp add: sample_event_state sample_bot_fields)
  then have "snd (process_token ascii_builtins sample_env sample_bot
          (token_creation_event sample_uri)) \<noteq> sample_bot"
    by auto
  moreover have "on_websocket_message ascii_builtins sample_env sample_bot
      (Some double_tagged_frame) = sample_bot"
    by (simp add: c on_websocket_message_def)
  moreover have "is_type_frame double_tagged_frame \<and> carries double_tagged_frame sample_uri"
    by (simp add: is_type_frame_def carries_def double_tagged_frame_def)
  ultimately show ?thesis
    using c by simp
qed

end
